theory Spec2Isabelle
  imports Complex_Main "HOL-Library.Log_Nat" "HOL-Library.Word"
begin

section \<open>Binary64 arithmetic\<close>

text \<open>
  Go's \<^verbatim>\<open>float64\<close> is IEEE 754 binary64 with round-to-nearest, ties-to-even. A finite
  float is modelled by the rational number it denotes; every operation is the exact
  rational operation followed by \<open>f64_round\<close>. Overflow to infinity is not modelled: the
  operands of the classifier are conversions of positive machine integers, their quotient
  and differences with constants, all far below \<open>2 ^ 1024\<close> in magnitude.
\<close>

definition floor_log2 :: "rat \<Rightarrow> int" where
  \<comment> \<open>\<open>\<lfloor>log\<^sub>2 \<bar>x\<bar>\<rfloor>\<close> for \<open>x \<noteq> 0\<close>, from the bit lengths of numerator and denominator.\<close>
  "floor_log2 x =
     (let (p, q) = quotient_of \<bar>x\<bar>;
          d = bitlen p - bitlen q
      in if power_int 2 d \<le> \<bar>x\<bar> then d else d - 1)"

definition round_half_even :: "rat \<Rightarrow> int" where
  "round_half_even y =
     (let f = \<lfloor>y\<rfloor>; r = y - of_int f
      in if r < 1 / 2 then f
         else if 1 / 2 < r then f + 1
         else if even f then f else f + 1)"

definition f64_round :: "rat \<Rightarrow> rat" where
  \<comment> \<open>53 significant bits; below \<open>2 ^ (- 1022)\<close> the spacing stays \<open>2 ^ (- 1074)\<close> (subnormals).\<close>
  "f64_round x =
     (if x = 0 then 0
      else let e = max (floor_log2 x) (- 1022);
               u = power_int 2 (e - 52)
           in of_int (round_half_even (x / u)) * u)"

definition f64_of_int :: "int \<Rightarrow> rat" where
  \<comment> \<open>the conversion \<^verbatim>\<open>float64(n)\<close>\<close>
  "f64_of_int n = f64_round (of_int n)"

definition f64_lit :: "rat \<Rightarrow> rat" where
  \<comment> \<open>a decimal constant of the source, converted to \<^verbatim>\<open>float64\<close>\<close>
  "f64_lit c = f64_round c"

definition f64_div :: "rat \<Rightarrow> rat \<Rightarrow> rat" where
  "f64_div a b = f64_round (a / b)"

definition f64_sub :: "rat \<Rightarrow> rat \<Rightarrow> rat" where
  "f64_sub a b = f64_round (a - b)"

definition math_Abs :: "rat \<Rightarrow> rat" where
  "math_Abs a = \<bar>a\<bar>"

section \<open>Data model\<close>

type_synonym uuid = "8 word list"
  \<comment> \<open>\<^verbatim>\<open>uuid.UUID\<close> is \<^verbatim>\<open>[16]byte\<close>\<close>

type_synonym error = string

text \<open>
  Modelled from the spec: the \<^verbatim>\<open>Video\<close> struct of the repository's database package is
  not among the sources. The spec's video record has an identifier, an owning user
  identifier, an optional thumbnail locator and an optional video locator.
\<close>

record video =
  ID :: uuid
  UserID :: uuid
  ThumbnailURL :: "string option"
  VideoURL :: "string option"

text \<open>
  Modelled from the spec: the \<^verbatim>\<open>thumbnail\<close> struct and the global map
  \<^verbatim>\<open>videoThumbnails\<close> are declared outside the sources; the handler writes the two
  fields below.
\<close>

record thumbnail =
  thumb_data :: string
  thumb_mediaType :: string

record stream =
  Width :: int
  Height :: int

record FFProbeResponse =
  Streams :: "stream list"

record apiConfig =
  jwtSecret :: string
  s3Bucket :: string
  assetsRoot :: string
  port :: string

text \<open>
  One file part of a multipart form: \<^verbatim>\<open>multipart.FileHeader\<close> with the part's bytes. The
  library files a part here only when it carries a file name.
\<close>

record file_part =
  Filename :: string
  ContentType :: string
  content :: string

text \<open>
  The request as the handlers read it: the path value \<^verbatim>\<open>videoID\<close>, the headers, the
  number of bytes the body delivers, the number of its leading bytes that the multipart
  reader consumes (\<open>form_length\<close>: everything up to and including the closing boundary
  of the form; what follows the closing boundary is never read), the limit installed by
  \<^verbatim>\<open>http.MaxBytesReader\<close> (if any), and the file parts of the multipart form the body
  encodes (\<open>None\<close> when it is not one).
\<close>

record request =
  PathValue_videoID :: string
  Header :: "string \<rightharpoonup> string"
  body_size :: nat
  form_length :: nat
  body_limit :: "nat option"
  multipart :: "(string \<rightharpoonup> file_part) option"

text \<open>
  Modelled from the spec: \<^verbatim>\<open>respondWithError\<close> and \<^verbatim>\<open>respondWithJSON\<close> are
  repository helpers outside the sources; a response is a status code with a message, or
  a status code with the serialised record.
\<close>

datatype response =
    respondWithError nat string
  | respondWithJSON nat video

fun status :: "response \<Rightarrow> nat" where
  "status (respondWithError c m) = c"
| "status (respondWithJSON c v) = c"

definition StatusOK :: nat where "StatusOK = 200"
definition StatusBadRequest :: nat where "StatusBadRequest = 400"
definition StatusUnauthorized :: nat where "StatusUnauthorized = 401"
definition StatusInternalServerError :: nat where "StatusInternalServerError = 500"

text \<open>Every call that leaves the handler is logged, in order, with its outcome.\<close>

datatype event =
    E_ParseMultipartForm bool
  | E_FormFile string bool
  | E_ReadAll bool
  | E_GetVideo uuid bool
  | E_UpdateVideo video bool
  | E_CreateTemp "string option"
  | E_Create string bool
  | E_Copy string bool
  | E_ffprobe string
  | E_ffmpeg string string
  | E_Stat string
  | E_Open string bool
  | E_Remove string
  | E_PutObject string string bool
  | E_MapStore uuid

record world =
  files :: "string \<rightharpoonup> string"
  db :: "uuid \<rightharpoonup> video"
  s3 :: "string \<times> string \<rightharpoonup> string \<times> string"
  videoThumbnails :: "uuid \<rightharpoonup> thumbnail"
  trace :: "event list"

text \<open>
  What the libraries, the external tools and the operating system answer. The handlers
  are functions of these answers; nothing is assumed about them unless a theorem says so.
  \<open>getObjectURL\<close> is a method of the repository's configuration that is not among the
  sources, taken as a parameter.
\<close>

record env =
  uuid_Parse :: "string \<Rightarrow> uuid option"
  GetBearerToken :: "(string \<rightharpoonup> string) \<Rightarrow> string option"
  ValidateJWT :: "string \<Rightarrow> string \<Rightarrow> uuid option"
  ParseMediaType :: "string \<Rightarrow> string option"
  CreateTemp_name :: "string \<Rightarrow> string \<Rightarrow> string option"
  Create_fails :: "string \<Rightarrow> bool"
  Copy_fails_after :: "string \<Rightarrow> nat option"
  ReadAll_fails :: bool
  ffprobe :: "(string \<rightharpoonup> string) \<Rightarrow> string \<Rightarrow> string option"
  json_Unmarshal :: "string \<Rightarrow> FFProbeResponse option"
  ffmpeg :: "(string \<rightharpoonup> string) \<Rightarrow> string \<Rightarrow> string \<Rightarrow> bool \<times> string option"
  Open_fails :: "string \<Rightarrow> bool"
  PutObject_fails :: "string \<Rightarrow> string \<Rightarrow> bool"
  UpdateVideo_fails :: "video \<Rightarrow> bool"
  getObjectURL :: "string \<Rightarrow> string"

definition emit :: "event \<Rightarrow> world \<Rightarrow> world" where
  "emit ev w = w\<lparr>trace := trace w @ [ev]\<rparr>"

section \<open>Library and system calls\<close>

definition hexdigit :: "nat \<Rightarrow> char" where
  "hexdigit n = ''0123456789abcdef'' ! (n mod 16)"

definition hex_byte :: "8 word \<Rightarrow> string" where
  "hex_byte b = [hexdigit (unat b div 16), hexdigit (unat b mod 16)]"

definition encodeHex :: "8 word list \<Rightarrow> string" where
  "encodeHex bs = concat (map hex_byte bs)"

definition uuid_String :: "uuid \<Rightarrow> string" where
  \<comment> \<open>the canonical form \<^verbatim>\<open>xxxxxxxx-xxxx-xxxx-xxxx-xxxxxxxxxxxx\<close>\<close>
  "uuid_String u =
     encodeHex (take 4 u) @ ''-'' @ encodeHex (take 2 (drop 4 u)) @ ''-'' @
     encodeHex (take 2 (drop 6 u)) @ ''-'' @ encodeHex (take 2 (drop 8 u)) @ ''-'' @
     encodeHex (drop 10 u)"

function strings_ReplaceAll :: "string \<Rightarrow> string \<Rightarrow> string \<Rightarrow> string" where
  \<comment> \<open>non-overlapping occurrences, left to right; the call site passes a non-empty pattern
      (the library's empty-pattern case is not modelled: the string is returned as it is)\<close>
  "strings_ReplaceAll s old new =
     (if old = [] \<or> s = [] then s
      else if take (length old) s = old
           then new @ strings_ReplaceAll (drop (length old) s) old new
           else hd s # strings_ReplaceAll (tl s) old new)"
  by pat_completeness auto
termination
  by (relation "measure (\<lambda>(s, old, new). length s)") (auto simp: length_greater_0_conv)

fun Ext_scan :: "string \<Rightarrow> string \<Rightarrow> string" where
  \<comment> \<open>the loop of \<^verbatim>\<open>filepath.Ext\<close>: first argument the path read backwards from index \<open>i\<close>,
      second the bytes after index \<open>i\<close>\<close>
  "Ext_scan [] suffix = []"
| "Ext_scan (c # front) suffix =
     (if c = CHR ''/'' then []
      else if c = CHR ''.'' then c # suffix
      else Ext_scan front (c # suffix))"

definition filepath_Ext :: "string \<Rightarrow> string" where
  "filepath_Ext path = Ext_scan (rev path) []"

definition filepath_Join :: "string \<Rightarrow> string \<Rightarrow> string" where
  \<comment> \<open>two clean, non-empty elements (the configured root and a file name without separators)\<close>
  "filepath_Join dir name = (if dir = [] then name else dir @ ''/'' @ name)"

definition over_limit :: "request \<Rightarrow> bool" where
  \<comment> \<open>a read through \<^verbatim>\<open>http.MaxBytesReader\<close> fails only when it goes past the limit: the
      form parser fails when the bytes it has to consume are more than the limit, whatever
      the size of the whole body\<close>
  "over_limit r = (case body_limit r of None \<Rightarrow> False | Some l \<Rightarrow> l < form_length r)"

definition MaxBytesReader :: "request \<Rightarrow> nat \<Rightarrow> request" where
  "MaxBytesReader r n = r\<lparr>body_limit := Some n\<rparr>"

definition parse_body :: "request \<Rightarrow> error + (string \<rightharpoonup> file_part)" where
  \<comment> \<open>reading the whole body as a multipart form\<close>
  "parse_body r =
     (if over_limit r then Inl ''http: request body too large''
      else case multipart r of
             None \<Rightarrow> Inl ''request Content-Type isn't multipart/form-data''
           | Some form \<Rightarrow> Inr form)"

definition ParseMultipartForm :: "request \<Rightarrow> nat \<Rightarrow> world \<Rightarrow> (error + (string \<rightharpoonup> file_part)) \<times> world" where
  \<comment> \<open>\<open>maxMemory\<close> only decides which parts the library keeps in memory and which it spills
      to disk; it rejects nothing\<close>
  "ParseMultipartForm r maxMemory w =
     (case parse_body r of
        Inl err \<Rightarrow> (Inl err, emit (E_ParseMultipartForm False) w)
      | Inr form \<Rightarrow> (Inr form, emit (E_ParseMultipartForm True) w))"

definition FormFile :: "request \<Rightarrow> string \<Rightarrow> world \<Rightarrow> (error + file_part) \<times> world" where
  \<comment> \<open>parses the form when the handler has not, then looks the field up\<close>
  "FormFile r name w =
     (case parse_body r of
        Inl err \<Rightarrow> (Inl err, emit (E_FormFile name False) w)
      | Inr form \<Rightarrow>
          (case form name of
             None \<Rightarrow> (Inl ''http: no such file'', emit (E_FormFile name False) w)
           | Some part \<Rightarrow> (Inr part, emit (E_FormFile name True) w)))"

definition io_ReadAll :: "env \<Rightarrow> file_part \<Rightarrow> world \<Rightarrow> (error + string) \<times> world" where
  "io_ReadAll e part w =
     (if ReadAll_fails e then (Inl ''read error'', emit (E_ReadAll False) w)
      else (Inr (content part), emit (E_ReadAll True) w))"

text \<open>
  Modelled from the spec: \<^verbatim>\<open>GetVideo\<close> and \<^verbatim>\<open>UpdateVideo\<close> belong to the repository's
  database package, which is not among the sources. The spec calls them fetch-by-identifier
  (a missing record is a lookup failure) and update.
\<close>

definition GetVideo :: "uuid \<Rightarrow> world \<Rightarrow> (error + video) \<times> world" where
  "GetVideo videoID w =
     (case db w videoID of
        None \<Rightarrow> (Inl ''sql: no rows in result set'', emit (E_GetVideo videoID False) w)
      | Some v \<Rightarrow> (Inr v, emit (E_GetVideo videoID True) w))"

definition UpdateVideo :: "env \<Rightarrow> video \<Rightarrow> world \<Rightarrow> bool \<times> world" where
  "UpdateVideo e v w =
     (if UpdateVideo_fails e v then (False, emit (E_UpdateVideo v False) w)
      else (True, emit (E_UpdateVideo v True) (w\<lparr>db := (db w)(ID v \<mapsto> v)\<rparr>)))"

definition os_CreateTemp :: "env \<Rightarrow> string \<Rightarrow> string \<Rightarrow> world \<Rightarrow> string option \<times> world" where
  \<comment> \<open>creates a file that did not exist (\<^verbatim>\<open>O_EXCL\<close>) and returns its name\<close>
  "os_CreateTemp e dir pattern w =
     (case CreateTemp_name e dir pattern of
        None \<Rightarrow> (None, emit (E_CreateTemp None) w)
      | Some p \<Rightarrow>
          if files w p \<noteq> None then (None, emit (E_CreateTemp None) w)
          else (Some p, emit (E_CreateTemp (Some p)) (w\<lparr>files := (files w)(p \<mapsto> [])\<rparr>)))"

definition os_Create :: "env \<Rightarrow> string \<Rightarrow> world \<Rightarrow> bool \<times> world" where
  \<comment> \<open>creates or truncates the named file\<close>
  "os_Create e p w =
     (if Create_fails e p then (False, emit (E_Create p False) w)
      else (True, emit (E_Create p True) (w\<lparr>files := (files w)(p \<mapsto> [])\<rparr>)))"

definition io_Copy :: "env \<Rightarrow> string \<Rightarrow> string \<Rightarrow> world \<Rightarrow> bool \<times> world" where
  \<comment> \<open>writes the bytes into the (empty, open) file; a failed copy leaves what it wrote\<close>
  "io_Copy e dst bytes w =
     (case Copy_fails_after e dst of
        None \<Rightarrow> (True, emit (E_Copy dst True) (w\<lparr>files := (files w)(dst \<mapsto> bytes)\<rparr>))
      | Some n \<Rightarrow> (False, emit (E_Copy dst False) (w\<lparr>files := (files w)(dst \<mapsto> take n bytes)\<rparr>)))"

definition os_Remove :: "string \<Rightarrow> world \<Rightarrow> world" where
  "os_Remove p w = emit (E_Remove p) (w\<lparr>files := (files w)(p := None)\<rparr>)"

definition os_Stat :: "string \<Rightarrow> world \<Rightarrow> (error + nat) \<times> world" where
  \<comment> \<open>the size of the file\<close>
  "os_Stat p w =
     (case files w p of
        None \<Rightarrow> (Inl ''no such file or directory'', emit (E_Stat p) w)
      | Some bytes \<Rightarrow> (Inr (length bytes), emit (E_Stat p) w))"

definition os_Open :: "env \<Rightarrow> string \<Rightarrow> world \<Rightarrow> string option \<times> world" where
  \<comment> \<open>the bytes a reader of the opened file delivers\<close>
  "os_Open e p w =
     (if Open_fails e p then (None, emit (E_Open p False) w)
      else case files w p of
             None \<Rightarrow> (None, emit (E_Open p False) w)
           | Some bytes \<Rightarrow> (Some bytes, emit (E_Open p True) w))"

definition PutObject :: "env \<Rightarrow> string \<Rightarrow> string \<Rightarrow> string \<Rightarrow> string \<Rightarrow> world \<Rightarrow> bool \<times> world" where
  "PutObject e bucket key body ctype w =
     (if PutObject_fails e bucket key then (False, emit (E_PutObject bucket key False) w)
      else (True, emit (E_PutObject bucket key True)
                    (w\<lparr>s3 := (s3 w)((bucket, key) \<mapsto> (body, ctype))\<rparr>)))"

definition run_ffprobe :: "env \<Rightarrow> string \<Rightarrow> world \<Rightarrow> string option \<times> world" where
  \<comment> \<open>standard output of the probe, \<open>None\<close> when it exits with an error\<close>
  "run_ffprobe e filePath w = (ffprobe e (files w) filePath, emit (E_ffprobe filePath) w)"

definition run_ffmpeg :: "env \<Rightarrow> string \<Rightarrow> string \<Rightarrow> world \<Rightarrow> bool \<times> world" where
  \<comment> \<open>the tool reports success or failure and may have written its output file (\<^verbatim>\<open>-y\<close>:
      over an existing one)\<close>
  "run_ffmpeg e input outp w =
     (let (ok, written) = ffmpeg e (files w) input outp;
          w1 = (case written of
                  None \<Rightarrow> w
                | Some bytes \<Rightarrow> w\<lparr>files := (files w)(outp \<mapsto> bytes)\<rparr>)
      in (ok, emit (E_ffmpeg input outp) w1))"

section \<open>The media classifier and the repackager\<close>

definition classify_dimensions :: "int \<Rightarrow> int \<Rightarrow> error + string" where
  \<comment> \<open>\<^verbatim>\<open>getVideoAspectRatio\<close> from the dimension check on\<close>
  "classify_dimensions width height =
     (if width \<le> 0 \<or> height \<le> 0 then Inl ''invalid dimensions''
      else let ratio = f64_div (f64_of_int width) (f64_of_int height)
           in if math_Abs (f64_sub ratio (f64_lit (178 / 100))) < f64_lit (1 / 10) then Inr ''16:9''
              else if math_Abs (f64_sub ratio (f64_lit (56 / 100))) < f64_lit (1 / 10) then Inr ''9:16''
              else Inr ''other'')"

definition getVideoAspectRatio :: "env \<Rightarrow> string \<Rightarrow> world \<Rightarrow> (error + string) \<times> world" where
  "getVideoAspectRatio e filePath w =
     (case run_ffprobe e filePath w of
        (None, w1) \<Rightarrow> (Inl ''failed to execute ffprobe'', w1)
      | (Some stdout, w1) \<Rightarrow>
          (case json_Unmarshal e stdout of
             None \<Rightarrow> (Inl ''failed to unmarshal ffprobe output'', w1)
           | Some response \<Rightarrow>
               (case Streams response of
                  [] \<Rightarrow> (Inl ''no stream information found'', w1)
                | s0 # _ \<Rightarrow> (classify_dimensions (Width s0) (Height s0), w1))))"

definition processVideoForFastStart :: "env \<Rightarrow> string \<Rightarrow> world \<Rightarrow> (error + string) \<times> world" where
  "processVideoForFastStart e filePath w =
     (let outputFilePath = filePath @ ''.processing''
      in case run_ffmpeg e filePath outputFilePath w of
           (False, w1) \<Rightarrow> (Inl ''failed to process video for fast start'', w1)
         | (True, w1) \<Rightarrow>
             (case os_Stat outputFilePath w1 of
                (Inl err, w2) \<Rightarrow> (Inl ''failed to stat processed file'', w2)
              | (Inr sz, w2) \<Rightarrow>
                  if sz = 0 then (Inl ''processed file is empty'', w2)
                  else (Inr outputFilePath, w2)))"

section \<open>The upload handlers\<close>

definition uploadLimit :: nat where
  "uploadLimit = 2 ^ 30"

definition maxMemory :: nat where
  "maxMemory = 10 * 2 ^ 20"

definition aspect_prefix :: "string \<Rightarrow> string" where
  \<comment> \<open>the \<^verbatim>\<open>switch aspectRatio\<close> of \<^verbatim>\<open>handlerUploadVideo\<close>\<close>
  "aspect_prefix aspectRatio =
     (if aspectRatio = ''16:9'' then ''landscape''
      else if aspectRatio = ''9:16'' then ''portrait''
      else ''other'')"

definition object_key :: "string \<Rightarrow> uuid \<Rightarrow> string \<Rightarrow> string" where
  \<comment> \<open>the key computed before \<^verbatim>\<open>PutObject\<close>\<close>
  "object_key prefix videoID filename =
     (let fileExt = filepath_Ext filename;
          fileExt = (if fileExt = [] then ''.mp4'' else fileExt);
          fileName = strings_ReplaceAll (uuid_String videoID) ''-'' []
      in prefix @ ''/'' @ fileName @ fileExt)"

definition uploadVideo_processed ::
  "env \<Rightarrow> apiConfig \<Rightarrow> uuid \<Rightarrow> video \<Rightarrow> file_part \<Rightarrow> string \<Rightarrow> string \<Rightarrow> string \<Rightarrow> world
     \<Rightarrow> response \<times> world" where
  \<comment> \<open>\<^verbatim>\<open>handlerUploadVideo\<close> after \<^verbatim>\<open>defer os.Remove(processedFilePath)\<close>; the size that is
      only printed is left out\<close>
  "uploadVideo_processed e cfg videoID video handler mediaType prefix processedFilePath w =
     (case os_Open e processedFilePath w of
        (None, w1) \<Rightarrow>
          (respondWithError StatusInternalServerError ''Could not open processed file'', w1)
      | (Some processedFile, w1) \<Rightarrow>
          (let key = object_key prefix videoID (Filename handler)
           in case PutObject e (s3Bucket cfg) key processedFile mediaType w1 of
                (False, w2) \<Rightarrow>
                  (respondWithError StatusInternalServerError ''Error uploading file to S3'', w2)
              | (True, w2) \<Rightarrow>
                  (let url = getObjectURL e key;
                       video = video\<lparr>VideoURL := Some url\<rparr>
                   in case UpdateVideo e video w2 of
                        (False, w3) \<Rightarrow>
                          (respondWithError StatusInternalServerError ''Couldn't update video'', w3)
                      | (True, w3) \<Rightarrow> (respondWithJSON StatusOK video, w3))))"

definition uploadVideo_staged ::
  "env \<Rightarrow> apiConfig \<Rightarrow> uuid \<Rightarrow> video \<Rightarrow> file_part \<Rightarrow> string \<Rightarrow> string \<Rightarrow> world
     \<Rightarrow> response \<times> world" where
  \<comment> \<open>\<^verbatim>\<open>handlerUploadVideo\<close> after \<^verbatim>\<open>defer os.Remove(tempFile.Name())\<close>; the deferred
      removal of the processed file runs when the rest has returned\<close>
  "uploadVideo_staged e cfg videoID video handler mediaType tempName w =
     (case io_Copy e tempName (content handler) w of
        (False, w1) \<Rightarrow>
          (respondWithError StatusInternalServerError ''Could not write file to disk'', w1)
      | (True, w1) \<Rightarrow>
          (case getVideoAspectRatio e tempName w1 of
             (Inl err, w2) \<Rightarrow>
               (respondWithError StatusInternalServerError
                  ''Could not determine video aspect ratio'', w2)
           | (Inr aspectRatio, w2) \<Rightarrow>
               (let prefix = aspect_prefix aspectRatio
                in case processVideoForFastStart e tempName w2 of
                     (Inl err, w3) \<Rightarrow>
                       (respondWithError StatusInternalServerError
                          ''Could not process video for fast start'', w3)
                   | (Inr processedFilePath, w3) \<Rightarrow>
                       (let (resp, w4) =
                              uploadVideo_processed e cfg videoID video handler mediaType prefix
                                processedFilePath w3
                        in (resp, os_Remove processedFilePath w4)))))"

definition handlerUploadVideo :: "env \<Rightarrow> apiConfig \<Rightarrow> request \<Rightarrow> world \<Rightarrow> response \<times> world" where
  "handlerUploadVideo e cfg r0 w =
     (let r = MaxBytesReader r0 uploadLimit
      in case uuid_Parse e (PathValue_videoID r) of
           None \<Rightarrow> (respondWithError StatusBadRequest ''Invalid ID'', w)
         | Some videoID \<Rightarrow>
         (case GetBearerToken e (Header r) of
            None \<Rightarrow> (respondWithError StatusUnauthorized ''Couldn't find JWT'', w)
          | Some token \<Rightarrow>
         (case ValidateJWT e token (jwtSecret cfg) of
            None \<Rightarrow> (respondWithError StatusUnauthorized ''Couldn't validate JWT'', w)
          | Some userID \<Rightarrow>
         (case GetVideo videoID w of
            (Inl err, w1) \<Rightarrow>
              (respondWithError StatusInternalServerError ''Couldn't find video'', w1)
          | (Inr video, w1) \<Rightarrow>
         if UserID video \<noteq> userID
         then (respondWithError StatusUnauthorized ''Not authorized to update this video'', w1)
         else
         (case FormFile r ''video'' w1 of
            (Inl err, w2) \<Rightarrow> (respondWithError StatusBadRequest ''Unable to parse form file'', w2)
          | (Inr handler, w2) \<Rightarrow>
         (case ParseMediaType e (ContentType handler) of
            None \<Rightarrow> (respondWithError StatusBadRequest ''Invalid Content-Type'', w2)
          | Some mediaType \<Rightarrow>
         if mediaType \<noteq> ''video/mp4''
         then (respondWithError StatusBadRequest ''Invalid file type, only MP4 is allowed'', w2)
         else
         (case os_CreateTemp e [] ''tubely-upload-*.mp4'' w2 of
            (None, w3) \<Rightarrow>
              (respondWithError StatusInternalServerError ''Could not create temp file'', w3)
          | (Some tempName, w3) \<Rightarrow>
              (let (resp, w4) =
                     uploadVideo_staged e cfg videoID video handler mediaType tempName w3
               in (resp, os_Remove tempName w4)))))))))"

text \<open>
  The sources hold two versions of \<^verbatim>\<open>handlerUploadThumbnail\<close>: one writes the image
  into the assets directory, the other keeps it in the map \<^verbatim>\<open>videoThumbnails\<close>.
\<close>

definition handlerUploadThumbnail_disk :: "env \<Rightarrow> apiConfig \<Rightarrow> request \<Rightarrow> world \<Rightarrow> response \<times> world" where
  "handlerUploadThumbnail_disk e cfg r w =
     (case uuid_Parse e (PathValue_videoID r) of
        None \<Rightarrow> (respondWithError StatusBadRequest ''Invalid ID'', w)
      | Some videoID \<Rightarrow>
      (case GetBearerToken e (Header r) of
         None \<Rightarrow> (respondWithError StatusUnauthorized ''Couldn't find JWT'', w)
       | Some token \<Rightarrow>
      (case ValidateJWT e token (jwtSecret cfg) of
         None \<Rightarrow> (respondWithError StatusUnauthorized ''Couldn't validate JWT'', w)
       | Some userID \<Rightarrow>
      (case ParseMultipartForm r maxMemory w of
         (Inl err, w1) \<Rightarrow> (respondWithError StatusBadRequest ''Unable to parse form'', w1)
       | (Inr form, w1) \<Rightarrow>
      (case FormFile r ''thumbnail'' w1 of
         (Inl err, w2) \<Rightarrow> (respondWithError StatusBadRequest ''Unable to get file from form'', w2)
       | (Inr header, w2) \<Rightarrow>
      (case ParseMediaType e (ContentType header) of
         None \<Rightarrow> (respondWithError StatusBadRequest ''Invalid Content-Type'', w2)
       | Some mediaType \<Rightarrow>
      (case (if mediaType = ''image/jpeg'' then Some ''jpg''
             else if mediaType = ''image/png'' then Some ''png''
             else None) of
         None \<Rightarrow> (respondWithError StatusBadRequest ''Unsupported file type'', w2)
       | Some fileExtension \<Rightarrow>
      (let filePath = filepath_Join (assetsRoot cfg) (uuid_String videoID @ ''.'' @ fileExtension)
       in case os_Create e filePath w2 of
            (False, w3) \<Rightarrow>
              (respondWithError StatusInternalServerError ''Unable to create file'', w3)
          | (True, w3) \<Rightarrow>
      (case io_Copy e filePath (content header) w3 of
         (False, w4) \<Rightarrow> (respondWithError StatusInternalServerError ''Unable to save file'', w4)
       | (True, w4) \<Rightarrow>
      (case GetVideo videoID w4 of
         (Inl err, w5) \<Rightarrow>
           (respondWithError StatusInternalServerError ''Unable to get video metadata'', w5)
       | (Inr video, w5) \<Rightarrow>
      if UserID video \<noteq> userID
      then (respondWithError StatusUnauthorized ''You are not the owner of this video'', w5)
      else
      (let thumbnailURL = ''http://localhost:'' @ port cfg @ ''/assets/'' @ uuid_String videoID
                            @ ''.'' @ fileExtension;
           video = video\<lparr>ThumbnailURL := Some thumbnailURL\<rparr>
       in case UpdateVideo e video w5 of
            (False, w6) \<Rightarrow>
              (respondWithError StatusInternalServerError ''Unable to update video metadata'', w6)
          | (True, w6) \<Rightarrow> (respondWithJSON StatusOK video, w6))))))))))))"

definition handlerUploadThumbnail_map :: "env \<Rightarrow> apiConfig \<Rightarrow> request \<Rightarrow> world \<Rightarrow> response \<times> world" where
  "handlerUploadThumbnail_map e cfg r w =
     (case uuid_Parse e (PathValue_videoID r) of
        None \<Rightarrow> (respondWithError StatusBadRequest ''Invalid ID'', w)
      | Some videoID \<Rightarrow>
      (case GetBearerToken e (Header r) of
         None \<Rightarrow> (respondWithError StatusUnauthorized ''Couldn't find JWT'', w)
       | Some token \<Rightarrow>
      (case ValidateJWT e token (jwtSecret cfg) of
         None \<Rightarrow> (respondWithError StatusUnauthorized ''Couldn't validate JWT'', w)
       | Some userID \<Rightarrow>
      (case ParseMultipartForm r maxMemory w of
         (Inl err, w1) \<Rightarrow> (respondWithError StatusBadRequest ''Unable to parse form'', w1)
       | (Inr form, w1) \<Rightarrow>
      (case FormFile r ''thumbnail'' w1 of
         (Inl err, w2) \<Rightarrow> (respondWithError StatusBadRequest ''Unable to get file from form'', w2)
       | (Inr header, w2) \<Rightarrow>
      (case io_ReadAll e header w2 of
         (Inl err, w3) \<Rightarrow> (respondWithError StatusInternalServerError ''Unable to read file'', w3)
       | (Inr fileData, w3) \<Rightarrow>
      (case GetVideo videoID w3 of
         (Inl err, w4) \<Rightarrow>
           (respondWithError StatusInternalServerError ''Unable to get video metadata'', w4)
       | (Inr video, w4) \<Rightarrow>
      if UserID video \<noteq> userID
      then (respondWithError StatusUnauthorized ''You are not the owner of this video'', w4)
      else
      (let w5 = emit (E_MapStore videoID)
                  (w4\<lparr>videoThumbnails := (videoThumbnails w4)
                         (videoID \<mapsto> \<lparr>thumb_data = fileData, thumb_mediaType = ContentType header\<rparr>)\<rparr>);
           thumbnailURL = ''http://localhost:'' @ port cfg @ ''/api/thumbnails/'' @ uuid_String videoID;
           video = video\<lparr>ThumbnailURL := Some thumbnailURL\<rparr>
       in case UpdateVideo e video w5 of
            (False, w6) \<Rightarrow>
              (respondWithError StatusInternalServerError ''Unable to update video metadata'', w6)
          | (True, w6) \<Rightarrow> (respondWithJSON StatusOK video, w6)))))))))"

section \<open>Events, summaries of the control flow, and concrete inputs\<close>

definition processed_paths ::
  "env \<Rightarrow> apiConfig \<Rightarrow> uuid \<Rightarrow> video \<Rightarrow> file_part \<Rightarrow> string \<Rightarrow> string \<Rightarrow> string
     \<Rightarrow> (uuid \<rightharpoonup> video) \<Rightarrow> (string \<times> string \<rightharpoonup> string \<times> string)
     \<Rightarrow> response \<Rightarrow> (uuid \<rightharpoonup> video) \<Rightarrow> (string \<times> string \<rightharpoonup> string \<times> string)
     \<Rightarrow> event list \<Rightarrow> bool" where
  "processed_paths e cfg videoID v handler mt prefix p d s resp d' s' evs =
     (let key = object_key prefix videoID (Filename handler);
          b = s3Bucket cfg;
          v' = v\<lparr>VideoURL := Some (getObjectURL e key)\<rparr>
      in (status resp = 500 \<and> d' = d \<and> s' = s \<and> evs = [E_Open p False])
       \<or> (status resp = 500 \<and> d' = d \<and> s' = s
            \<and> evs = [E_Open p True, E_PutObject b key False])
       \<or> (\<exists>body. status resp = 500 \<and> d' = d
            \<and> s' = s((b, key) \<mapsto> (body, mt))
            \<and> evs = [E_Open p True, E_PutObject b key True, E_UpdateVideo v' False])
       \<or> (\<exists>body. resp = respondWithJSON 200 v'
            \<and> d' = d(ID v \<mapsto> v')
            \<and> s' = s((b, key) \<mapsto> (body, mt))
            \<and> evs = [E_Open p True, E_PutObject b key True, E_UpdateVideo v' True]))"

definition staged_paths ::
  "env \<Rightarrow> apiConfig \<Rightarrow> uuid \<Rightarrow> video \<Rightarrow> file_part \<Rightarrow> string \<Rightarrow> string
     \<Rightarrow> (uuid \<rightharpoonup> video) \<Rightarrow> (string \<times> string \<rightharpoonup> string \<times> string)
     \<Rightarrow> response \<Rightarrow> (uuid \<rightharpoonup> video) \<Rightarrow> (string \<times> string \<rightharpoonup> string \<times> string)
     \<Rightarrow> (string \<rightharpoonup> string) \<Rightarrow> event list \<Rightarrow> bool" where
  "staged_paths e cfg videoID v handler mt tmp d s resp d' s' fs' evs =
     (let outp = tmp @ ''.processing''
      in (status resp = 500 \<and> d' = d \<and> s' = s
          \<and> (evs = [E_Copy tmp False]
             \<or> evs = [E_Copy tmp True, E_ffprobe tmp]
             \<or> evs = [E_Copy tmp True, E_ffprobe tmp, E_ffmpeg tmp outp]
             \<or> evs = [E_Copy tmp True, E_ffprobe tmp, E_ffmpeg tmp outp, E_Stat outp]))
       \<or> (\<exists>a probe_out probe s0 rest pevs.
             json_Unmarshal e probe_out = Some probe \<and> Streams probe = s0 # rest
           \<and> classify_dimensions (Width s0) (Height s0) = Inr a
           \<and> evs = [E_Copy tmp True, E_ffprobe tmp, E_ffmpeg tmp outp, E_Stat outp] @ pevs @ [E_Remove outp]
           \<and> fs' outp = None
           \<and> processed_paths e cfg videoID v handler mt (aspect_prefix a) outp d s resp d' s' pevs))"

definition unchanged :: "world \<Rightarrow> world \<Rightarrow> bool" where
  "unchanged w w' = (files w' = files w \<and> db w' = db w \<and> s3 w' = s3 w
                      \<and> videoThumbnails w' = videoThumbnails w)"

definition video_paths :: "env \<Rightarrow> apiConfig \<Rightarrow> request \<Rightarrow> world \<Rightarrow> response \<Rightarrow> world \<Rightarrow> event list \<Rightarrow> bool" where
  "video_paths e cfg r w resp w' evs =
     (case uuid_Parse e (PathValue_videoID r) of
        None \<Rightarrow> status resp = 400 \<and> evs = [] \<and> unchanged w w'
      | Some videoID \<Rightarrow>
      (case GetBearerToken e (Header r) of
         None \<Rightarrow> status resp = 401 \<and> evs = [] \<and> unchanged w w'
       | Some token \<Rightarrow>
      (case ValidateJWT e token (jwtSecret cfg) of
         None \<Rightarrow> status resp = 401 \<and> evs = [] \<and> unchanged w w'
       | Some userID \<Rightarrow>
      (case db w videoID of
         None \<Rightarrow> status resp = 500 \<and> evs = [E_GetVideo videoID False] \<and> unchanged w w'
       | Some v \<Rightarrow>
      if UserID v \<noteq> userID
      then status resp = 401 \<and> evs = [E_GetVideo videoID True] \<and> unchanged w w'
      else
      (case (if uploadLimit < form_length r then None
             else case multipart r of None \<Rightarrow> None | Some form \<Rightarrow> form ''video'') of
         None \<Rightarrow> status resp = 400 \<and> unchanged w w'
                  \<and> evs = [E_GetVideo videoID True, E_FormFile ''video'' False]
       | Some part \<Rightarrow>
      (if ParseMediaType e (ContentType part) \<noteq> Some ''video/mp4''
       then status resp = 400 \<and> unchanged w w'
            \<and> evs = [E_GetVideo videoID True, E_FormFile ''video'' True]
       else (status resp = 500 \<and> unchanged w w'
             \<and> evs = [E_GetVideo videoID True, E_FormFile ''video'' True, E_CreateTemp None])
          \<or> (\<exists>tmp sevs. files w tmp = None \<and> files w' tmp = None
               \<and> videoThumbnails w' = videoThumbnails w
               \<and> evs = [E_GetVideo videoID True, E_FormFile ''video'' True, E_CreateTemp (Some tmp)]
                         @ sevs @ [E_Remove tmp]
               \<and> staged_paths e cfg videoID v part ''video/mp4'' tmp (db w) (s3 w) resp
                     (db w') (s3 w') (files w') sevs)))))))"

definition demo_id :: uuid where
  "demo_id = [0x12, 0x3e, 0x45, 0x67, 0xe8, 0x9b, 0x12, 0xd3, 0xa4, 0x56, 0x42, 0x66, 0x14, 0x17, 0x40, 0x00]"

definition alice :: uuid where
  "alice = [0xa1, 0, 0, 0, 0, 0, 0, 0, 0, 0, 0, 0, 0, 0, 0, 1]"

definition bob :: uuid where
  "bob = [0xb0, 0, 0, 0, 0, 0, 0, 0, 0, 0, 0, 0, 0, 0, 0, 2]"

definition demo_cfg :: apiConfig where
  "demo_cfg = \<lparr>jwtSecret = ''secret'', s3Bucket = ''tubely'', assetsRoot = ''assets'', port = ''8091''\<rparr>"

definition demo_env :: env where
  "demo_env =
     \<lparr>uuid_Parse = (\<lambda>s. if s = ''123e4567-e89b-12d3-a456-426614174000'' then Some demo_id else None),
      GetBearerToken = (\<lambda>h. h ''Authorization''),
      ValidateJWT = (\<lambda>tok secret. if tok = ''alice-token'' then Some alice
                                    else if tok = ''bob-token'' then Some bob else None),
      ParseMediaType = (\<lambda>s. if s = [] then None else Some s),
      CreateTemp_name = (\<lambda>dir pattern. Some ''/tmp/tubely-upload-1.mp4''),
      Create_fails = (\<lambda>p. False),
      Copy_fails_after = (\<lambda>p. None),
      ReadAll_fails = False,
      ffprobe = (\<lambda>fs p. case fs p of None \<Rightarrow> None | Some bytes \<Rightarrow> Some ''{streams}''),
      json_Unmarshal = (\<lambda>s. Some \<lparr>Streams = [\<lparr>Width = 1920, Height = 1080\<rparr>]\<rparr>),
      ffmpeg = (\<lambda>fs i outp. case fs i of None \<Rightarrow> (False, None) | Some bytes \<Rightarrow> (True, Some bytes)),
      Open_fails = (\<lambda>p. False),
      PutObject_fails = (\<lambda>b k. False),
      UpdateVideo_fails = (\<lambda>v. False),
      getObjectURL = (\<lambda>k. ''https://tubely.s3.amazonaws.com/'' @ k)\<rparr>"

definition demo_form :: "string \<rightharpoonup> file_part" where
  "demo_form =
     [''video'' \<mapsto> \<lparr>Filename = ''clip.mov'', ContentType = ''video/mp4'', content = ''mp4-bytes''\<rparr>,
      ''thumbnail'' \<mapsto> \<lparr>Filename = ''pic.png'', ContentType = ''image/png'', content = ''png-bytes''\<rparr>]"

definition demo_request :: "string \<Rightarrow> request" where
  "demo_request token =
     \<lparr>PathValue_videoID = ''123e4567-e89b-12d3-a456-426614174000'',
      Header = [''Authorization'' \<mapsto> token],
      body_size = 4096,
      form_length = 4096,
      body_limit = None,
      multipart = Some demo_form\<rparr>"

definition demo_video :: video where
  "demo_video = \<lparr>ID = demo_id, UserID = alice, ThumbnailURL = None, VideoURL = None\<rparr>"

definition demo_world :: world where
  "demo_world =
     \<lparr>files = Map.empty, db = [demo_id \<mapsto> demo_video], s3 = Map.empty,
      videoThumbnails = Map.empty, trace = []\<rparr>"

definition new_events :: "world \<Rightarrow> world \<Rightarrow> event list" where
  "new_events w w' = drop (length (trace w)) (trace w')"

fun is_UpdateVideo :: "event \<Rightarrow> bool" where
  "is_UpdateVideo (E_UpdateVideo v ok) = True"
| "is_UpdateVideo ev = False"

fun is_GetVideo_ok :: "event \<Rightarrow> bool" where
  "is_GetVideo_ok (E_GetVideo i ok) = ok"
| "is_GetVideo_ok ev = False"

fun is_PutObject_ok :: "event \<Rightarrow> bool" where
  "is_PutObject_ok (E_PutObject b k ok) = ok"
| "is_PutObject_ok ev = False"

fun is_Copy_ok :: "event \<Rightarrow> bool" where
  "is_Copy_ok (E_Copy p ok) = ok"
| "is_Copy_ok ev = False"

fun is_MapStore :: "event \<Rightarrow> bool" where
  "is_MapStore (E_MapStore i) = True"
| "is_MapStore ev = False"

fun is_extraction_or_staging :: "event \<Rightarrow> bool" where
  "is_extraction_or_staging (E_ParseMultipartForm ok) = True"
| "is_extraction_or_staging (E_FormFile name ok) = True"
| "is_extraction_or_staging (E_ReadAll ok) = True"
| "is_extraction_or_staging (E_CreateTemp p) = True"
| "is_extraction_or_staging (E_Create p ok) = True"
| "is_extraction_or_staging (E_Copy p ok) = True"
| "is_extraction_or_staging (E_PutObject b k ok) = True"
| "is_extraction_or_staging (E_MapStore i) = True"
| "is_extraction_or_staging ev = False"

fun preceded_by :: "(event \<Rightarrow> bool) \<Rightarrow> (event \<Rightarrow> bool) \<Rightarrow> event list \<Rightarrow> bool" where
  "preceded_by P Q [] = True"
| "preceded_by P Q (ev # evs) = (\<not> Q ev \<and> (P ev \<or> preceded_by P Q evs))"

fun is_staging :: "event \<Rightarrow> bool" where
  "is_staging (E_CreateTemp p) = True"
| "is_staging (E_Create p ok) = True"
| "is_staging (E_Copy p ok) = True"
| "is_staging (E_PutObject b k ok) = True"
| "is_staging (E_MapStore i) = True"
| "is_staging ev = False"

definition declared_type :: "env \<Rightarrow> request \<Rightarrow> string \<Rightarrow> string option" where
  "declared_type e r name =
     (case multipart r of
        None \<Rightarrow> None
      | Some form \<Rightarrow>
          (case form name of
             None \<Rightarrow> None
           | Some part \<Rightarrow> ParseMediaType e (ContentType part)))"

definition disk_paths :: "env \<Rightarrow> apiConfig \<Rightarrow> request \<Rightarrow> world \<Rightarrow> response \<Rightarrow> world \<Rightarrow> event list \<Rightarrow> bool" where
  "disk_paths e cfg r w resp w' evs =
     (case uuid_Parse e (PathValue_videoID r) of
        None \<Rightarrow> status resp = 400 \<and> evs = [] \<and> unchanged w w'
      | Some videoID \<Rightarrow>
      (case GetBearerToken e (Header r) of
         None \<Rightarrow> status resp = 401 \<and> evs = [] \<and> unchanged w w'
       | Some token \<Rightarrow>
      (case ValidateJWT e token (jwtSecret cfg) of
         None \<Rightarrow> status resp = 401 \<and> evs = [] \<and> unchanged w w'
       | Some userID \<Rightarrow>
      (case (if over_limit r then None else multipart r) of
         None \<Rightarrow> status resp = 400 \<and> evs = [E_ParseMultipartForm False] \<and> unchanged w w'
       | Some form \<Rightarrow>
      (case form ''thumbnail'' of
         None \<Rightarrow> status resp = 400 \<and> unchanged w w'
                  \<and> evs = [E_ParseMultipartForm True, E_FormFile ''thumbnail'' False]
       | Some part \<Rightarrow>
      (case (case ParseMediaType e (ContentType part) of
               None \<Rightarrow> None
             | Some mt \<Rightarrow> if mt = ''image/jpeg'' then Some ''jpg''
                          else if mt = ''image/png'' then Some ''png'' else None) of
         None \<Rightarrow> status resp = 400 \<and> unchanged w w'
                  \<and> evs = [E_ParseMultipartForm True, E_FormFile ''thumbnail'' True]
       | Some ext \<Rightarrow>
      (let p = filepath_Join (assetsRoot cfg) (uuid_String videoID @ ''.'' @ ext);
           pre = [E_ParseMultipartForm True, E_FormFile ''thumbnail'' True]
       in if Create_fails e p
          then status resp = 500 \<and> unchanged w w' \<and> evs = pre @ [E_Create p False]
          else s3 w' = s3 w \<and> videoThumbnails w' = videoThumbnails w \<and>
      (case Copy_fails_after e p of
         Some n \<Rightarrow> status resp = 500 \<and> db w' = db w
                    \<and> files w' = (files w)(p \<mapsto> take n (content part))
                    \<and> evs = pre @ [E_Create p True, E_Copy p False]
       | None \<Rightarrow> files w' = (files w)(p \<mapsto> content part) \<and>
      (case db w videoID of
         None \<Rightarrow> status resp = 500 \<and> db w' = db w
                  \<and> evs = pre @ [E_Create p True, E_Copy p True, E_GetVideo videoID False]
       | Some v \<Rightarrow>
      (if UserID v \<noteq> userID
       then status resp = 401 \<and> db w' = db w
            \<and> evs = pre @ [E_Create p True, E_Copy p True, E_GetVideo videoID True]
       else
       (let v' = v\<lparr>ThumbnailURL := Some (''http://localhost:'' @ port cfg @ ''/assets/''
                                              @ uuid_String videoID @ ''.'' @ ext)\<rparr>
        in if UpdateVideo_fails e v'
           then status resp = 500 \<and> db w' = db w
                \<and> evs = pre @ [E_Create p True, E_Copy p True, E_GetVideo videoID True,
                                 E_UpdateVideo v' False]
           else resp = respondWithJSON 200 v' \<and> db w' = (db w)(ID v \<mapsto> v')
                \<and> evs = pre @ [E_Create p True, E_Copy p True, E_GetVideo videoID True,
                                 E_UpdateVideo v' True])))))))))))"

definition map_paths :: "env \<Rightarrow> apiConfig \<Rightarrow> request \<Rightarrow> world \<Rightarrow> response \<Rightarrow> world \<Rightarrow> event list \<Rightarrow> bool" where
  "map_paths e cfg r w resp w' evs =
     (case uuid_Parse e (PathValue_videoID r) of
        None \<Rightarrow> status resp = 400 \<and> evs = [] \<and> unchanged w w'
      | Some videoID \<Rightarrow>
      (case GetBearerToken e (Header r) of
         None \<Rightarrow> status resp = 401 \<and> evs = [] \<and> unchanged w w'
       | Some token \<Rightarrow>
      (case ValidateJWT e token (jwtSecret cfg) of
         None \<Rightarrow> status resp = 401 \<and> evs = [] \<and> unchanged w w'
       | Some userID \<Rightarrow>
      (case (if over_limit r then None else multipart r) of
         None \<Rightarrow> status resp = 400 \<and> evs = [E_ParseMultipartForm False] \<and> unchanged w w'
       | Some form \<Rightarrow>
      (case form ''thumbnail'' of
         None \<Rightarrow> status resp = 400 \<and> unchanged w w'
                  \<and> evs = [E_ParseMultipartForm True, E_FormFile ''thumbnail'' False]
       | Some part \<Rightarrow>
      (let pre = [E_ParseMultipartForm True, E_FormFile ''thumbnail'' True]
       in if ReadAll_fails e
          then status resp = 500 \<and> unchanged w w' \<and> evs = pre @ [E_ReadAll False]
          else
      (case db w videoID of
         None \<Rightarrow> status resp = 500 \<and> unchanged w w'
                  \<and> evs = pre @ [E_ReadAll True, E_GetVideo videoID False]
       | Some v \<Rightarrow>
      (if UserID v \<noteq> userID
       then status resp = 401 \<and> unchanged w w'
            \<and> evs = pre @ [E_ReadAll True, E_GetVideo videoID True]
       else files w' = files w \<and> s3 w' = s3 w
            \<and> videoThumbnails w' = (videoThumbnails w)
                  (videoID \<mapsto> \<lparr>thumb_data = content part, thumb_mediaType = ContentType part\<rparr>) \<and>
       (let v' = v\<lparr>ThumbnailURL := Some (''http://localhost:'' @ port cfg @ ''/api/thumbnails/''
                                              @ uuid_String videoID)\<rparr>
        in if UpdateVideo_fails e v'
           then status resp = 500 \<and> db w' = db w
                \<and> evs = pre @ [E_ReadAll True, E_GetVideo videoID True, E_MapStore videoID,
                                 E_UpdateVideo v' False]
           else resp = respondWithJSON 200 v' \<and> db w' = (db w)(ID v \<mapsto> v')
                \<and> evs = pre @ [E_ReadAll True, E_GetVideo videoID True, E_MapStore videoID,
                                 E_UpdateVideo v' True])))))))))"

definition leaky_env :: env where
  "leaky_env = demo_env\<lparr>ffmpeg := (\<lambda>fs i outp. (True, Some []))\<rparr>"

definition aborting_env :: env where
  "aborting_env = demo_env\<lparr>ffmpeg := (\<lambda>fs i outp. (False, Some ''ftyp''))\<rparr>"

definition probe_env :: "int \<Rightarrow> int \<Rightarrow> env" where
  "probe_env width height =
     demo_env\<lparr>json_Unmarshal := (\<lambda>s. Some \<lparr>Streams = [\<lparr>Width = width, Height = height\<rparr>]\<rparr>)\<rparr>"

definition probe_world :: world where
  "probe_world = demo_world\<lparr>files := [''/tmp/v.mp4'' \<mapsto> ''mp4-bytes'']\<rparr>"

definition html_request :: request where
  "html_request =
     (demo_request ''alice-token'')
       \<lparr>multipart := Some [''thumbnail'' \<mapsto>
          \<lparr>Filename = ''page.html'', ContentType = ''text/html'', content = ''<script>''\<rparr>,
          ''video'' \<mapsto>
          \<lparr>Filename = ''page.html'', ContentType = ''text/html'', content = ''<script>''\<rparr>]\<rparr>"

definition fieldless_request :: request where
  "fieldless_request = (demo_request ''bob-token'')\<lparr>multipart := Some Map.empty\<rparr>"

definition oversize_request :: request where
  "oversize_request = (demo_request ''alice-token'')\<lparr>body_size := 2 ^ 31\<rparr>"

definition overlong_form_request :: request where
  "overlong_form_request =
     (demo_request ''alice-token'')\<lparr>body_size := 2 ^ 31, form_length := 2 ^ 31\<rparr>"

definition thumbnail_path :: string where
  "thumbnail_path = ''assets/123e4567-e89b-12d3-a456-426614174000.png''"

definition put_fail_env :: env where
  "put_fail_env = demo_env\<lparr>PutObject_fails := (\<lambda>b k. True)\<rparr>"

section \<open>Properties\<close>

subsection \<open>Rounding to binary64\<close>

lemma bitlen_pow_lower:
  assumes "0 < p"
  shows "power_int (2::rat) (bitlen p - 1) \<le> of_int p"
proof -
  have b: "2 ^ nat (bitlen p - 1) \<le> p" using bitlen_bounds[OF assms] by simp
  have pos: "0 < bitlen p" using assms bitlen_eq_zero_iff[of p] bitlen_nonneg[of p] by linarith
  have "power_int (2::rat) (bitlen p - 1) = 2 ^ nat (bitlen p - 1)"
    using pos by (simp add: power_int_def)
  also have "\<dots> = of_int (2 ^ nat (bitlen p - 1))" by simp
  also have "\<dots> \<le> of_int p" using b by (simp only: of_int_le_iff)
  finally show ?thesis .
qed

lemma bitlen_pow_upper:
  assumes "0 < p"
  shows "of_int p < power_int (2::rat) (bitlen p)"
proof -
  have b: "p < 2 ^ nat (bitlen p)" using bitlen_bounds[OF assms] by simp
  have pos: "0 < bitlen p" using assms bitlen_eq_zero_iff[of p] bitlen_nonneg[of p] by linarith
  have "of_int p < (of_int (2 ^ nat (bitlen p)) :: rat)" using b by (simp only: of_int_less_iff)
  also have "\<dots> = power_int (2::rat) (bitlen p)"
    using pos by (simp add: power_int_def)
  finally show ?thesis .
qed

text \<open>
  \<open>floor_log2\<close> is the binary exponent: the powers of two around a non-zero rational.
\<close>

lemma floor_log2_bounds:
  assumes "x \<noteq> 0"
  shows "power_int 2 (floor_log2 x) \<le> \<bar>x\<bar>" and "\<bar>x\<bar> < power_int 2 (floor_log2 x + 1)"
proof -
  obtain p q where pq: "quotient_of \<bar>x\<bar> = (p, q)" by (cases "quotient_of \<bar>x\<bar>")
  have q: "0 < q" using quotient_of_denom_pos[OF pq] .
  have x: "\<bar>x\<bar> = of_int p / of_int q" using quotient_of_div[OF pq] .
  have p: "0 < p"
  proof -
    have "0 < \<bar>x\<bar>" using assms by simp
    then have "0 < (of_int p :: rat) / of_int q" using x by simp
    then show ?thesis using q by (simp add: zero_less_divide_iff)
  qed
  let ?d = "bitlen p - bitlen q"
  have lo: "power_int 2 (?d - 1) \<le> \<bar>x\<bar>"
  proof -
    have "power_int (2::rat) (?d - 1) = power_int 2 (bitlen p - 1) / power_int 2 (bitlen q)"
      by (simp add: power_int_diff)
    also have "\<dots> \<le> of_int p / power_int 2 (bitlen q)"
      using bitlen_pow_lower[OF p] by (simp add: divide_right_mono)
    also have "\<dots> \<le> of_int p / of_int q"
      using bitlen_pow_upper[OF q] p q by (simp add: frac_le)
    finally show ?thesis using x by simp
  qed
  have hi: "\<bar>x\<bar> < power_int 2 (?d + 1)"
  proof -
    have "of_int p / of_int q < power_int (2::rat) (bitlen p) / of_int q"
      using bitlen_pow_upper[OF p] q by (simp add: divide_strict_right_mono)
    also have "\<dots> \<le> power_int 2 (bitlen p) / power_int 2 (bitlen q - 1)"
      using bitlen_pow_lower[OF q] q by (intro divide_left_mono) (auto intro!: mult_pos_pos)
    also have "\<dots> = power_int 2 (?d + 1)"
      by (simp add: power_int_diff power_int_add field_simps)
    finally show ?thesis using x by simp
  qed
  show "power_int 2 (floor_log2 x) \<le> \<bar>x\<bar>"
    using lo by (simp add: floor_log2_def pq Let_def)
  show "\<bar>x\<bar> < power_int 2 (floor_log2 x + 1)"
    using hi by (auto simp add: floor_log2_def pq Let_def not_le)
qed

lemma round_half_even_error: "\<bar>of_int (round_half_even y) - y\<bar> \<le> 1 / 2"
proof -
  have "of_int \<lfloor>y\<rfloor> \<le> y" "y < of_int \<lfloor>y\<rfloor> + 1" by linarith+
  then show ?thesis
    by (auto simp add: round_half_even_def Let_def)
qed

lemma round_half_even_of_int: "round_half_even (of_int k) = k"
  by (simp add: round_half_even_def)

lemma f64_round_error_ulp:
  assumes "x \<noteq> 0"
  shows "\<bar>f64_round x - x\<bar> \<le> power_int 2 (max (floor_log2 x) (- 1022) - 52) / 2"
proof -
  let ?u = "power_int (2::rat) (max (floor_log2 x) (- 1022) - 52)"
  have u: "0 < ?u" by simp
  have "\<bar>of_int (round_half_even (x / ?u)) - x / ?u\<bar> \<le> 1 / 2"
    by (rule round_half_even_error)
  then have "\<bar>of_int (round_half_even (x / ?u)) - x / ?u\<bar> * ?u \<le> 1 / 2 * ?u"
    using u by (intro mult_right_mono) auto
  moreover have "\<bar>of_int (round_half_even (x / ?u)) - x / ?u\<bar> * ?u
                  = \<bar>of_int (round_half_even (x / ?u)) * ?u - x\<bar>"
  proof -
    have "\<bar>of_int (round_half_even (x / ?u)) - x / ?u\<bar> * ?u
            = \<bar>(of_int (round_half_even (x / ?u)) - x / ?u) * ?u\<bar>"
      using u by (simp add: abs_mult)
    also have "(of_int (round_half_even (x / ?u)) - x / ?u) * ?u
                 = of_int (round_half_even (x / ?u)) * ?u - x"
      using u by (simp add: algebra_simps)
    finally show ?thesis .
  qed
  ultimately show ?thesis
    using assms by (simp add: f64_round_def Let_def)
qed

text \<open>
  Rounding to nearest moves a value by at most half a unit in the last place: a relative
  error of \<open>2 ^ (- 53)\<close> in the normal range, an absolute one of \<open>2 ^ (- 1075)\<close> below it.
\<close>

lemma f64_round_error:
  "\<bar>f64_round x - x\<bar> \<le> \<bar>x\<bar> / 2 ^ 53 + 1 / 2 ^ 100"
proof (cases "x = 0")
  case True
  then show ?thesis by (simp add: f64_round_def)
next
  case False
  let ?e = "max (floor_log2 x) (- 1022)"
  have ulp: "\<bar>f64_round x - x\<bar> \<le> power_int 2 (?e - 52) / 2"
    by (rule f64_round_error_ulp[OF False])
  have half: "power_int (2::rat) (?e - 52) / 2 = power_int 2 (?e - 53)"
    by (simp add: power_int_diff)
  show ?thesis
  proof (cases "- 1022 \<le> floor_log2 x")
    case True
    then have e: "?e = floor_log2 x" by simp
    have "power_int (2::rat) (floor_log2 x - 53) = power_int 2 (floor_log2 x) / 2 ^ 53"
      by (simp add: power_int_diff)
    also have "\<dots> \<le> \<bar>x\<bar> / 2 ^ 53"
      using floor_log2_bounds(1)[OF False] by (simp add: divide_right_mono)
    finally have "power_int (2::rat) (?e - 53) \<le> \<bar>x\<bar> / 2 ^ 53" using e by simp
    moreover have "(0::rat) \<le> 1 / 2 ^ 100" by simp
    ultimately show ?thesis using ulp half by linarith
  next
    case False
    then have e: "?e = - 1022" by simp
    have "power_int (2::rat) (?e - 53) = power_int 2 (- 1075)" using e by simp
    also have "\<dots> \<le> power_int 2 (- 100)"
      by (rule power_int_increasing) auto
    also have "\<dots> = 1 / 2 ^ 100"
      by (simp add: power_int_minus field_simps)
    finally have "power_int (2::rat) (?e - 53) \<le> 1 / 2 ^ 100" .
    moreover have "0 \<le> \<bar>x\<bar> / 2 ^ 53" by simp
    ultimately show ?thesis using ulp half by linarith
  qed
qed

text \<open>
  Integers below \<open>2 ^ 53\<close> in magnitude convert exactly.
\<close>

lemma f64_round_of_int:
  assumes "\<bar>n\<bar> < 2 ^ 53"
  shows "f64_round (of_int n) = of_int n"
proof (cases "n = 0")
  case True
  then show ?thesis by (simp add: f64_round_def)
next
  case False
  let ?x = "of_int n :: rat"
  let ?e = "max (floor_log2 ?x) (- 1022)"
  have x0: "?x \<noteq> 0" using False by simp
  have "power_int (2::rat) (floor_log2 ?x) \<le> \<bar>?x\<bar>" by (rule floor_log2_bounds(1)[OF x0])
  also have "\<bar>?x\<bar> < 2 ^ 53"
  proof -
    have "\<bar>?x\<bar> = of_int \<bar>n\<bar>" by simp
    also have "\<dots> < of_int (2 ^ 53)" using assms by (simp only: of_int_less_iff)
    finally show ?thesis by simp
  qed
  also have "(2::rat) ^ 53 = power_int 2 53" by simp
  finally have "power_int (2::rat) (floor_log2 ?x) < power_int 2 53" .
  then have "floor_log2 ?x < 53"
    by (rule power_int_le_imp_less_exp[rotated]) auto
  then have e: "?e \<le> 52" by simp
  define k where "k = nat (52 - ?e)"
  have u: "power_int (2::rat) (?e - 52) = 1 / 2 ^ k"
  proof -
    have "?e - 52 = - int k" using e by (simp add: k_def)
    then have "power_int (2::rat) (?e - 52) = power_int 2 (- int k)" by (rule arg_cong)
    also have "\<dots> = 1 / 2 ^ k" by (simp add: power_int_minus field_simps)
    finally show ?thesis .
  qed
  have "?x / power_int 2 (?e - 52) = of_int (n * 2 ^ k)"
    by (simp add: u)
  then have "round_half_even (?x / power_int 2 (?e - 52)) = n * 2 ^ k"
    by (simp only: round_half_even_of_int)
  then have "f64_round ?x = of_int (n * 2 ^ k) * (1 / 2 ^ k)"
    using x0 u by (simp add: f64_round_def Let_def)
  then show ?thesis by simp
qed

subsection \<open>The tolerance bands in binary64\<close>

lemma f64_lit_tenth: "f64_lit (1 / 10) = 3602879701896397 / 36028797018963968"
  by code_simp

lemma ratio_gap_less:
  fixes w h a b :: int
  assumes "0 < h" "0 < b" "(of_int w :: rat) / of_int h < of_int a / of_int b"
  shows "(of_int w :: rat) / of_int h + 1 / (of_int b * of_int h) \<le> of_int a / of_int b"
proof -
  have "(of_int (w * b) :: rat) < of_int (a * h)"
    using assms by (simp add: field_simps)
  then have "w * b < a * h" by (simp only: of_int_less_iff)
  then have "w * b + 1 \<le> a * h" by simp
  then have key: "(of_int (w * b + 1) :: rat) \<le> of_int (a * h)" by (simp only: of_int_le_iff)
  have "(of_int w :: rat) / of_int h + 1 / (of_int b * of_int h)
          = of_int (w * b + 1) / (of_int b * of_int h)"
    using assms by (simp add: field_simps)
  also have "\<dots> \<le> of_int (a * h) / (of_int b * of_int h)"
    using key assms by (intro divide_right_mono) auto
  also have "\<dots> = of_int a / of_int b"
    using assms by simp
  finally show ?thesis .
qed

lemma ratio_gap_greater:
  fixes w h a b :: int
  assumes "0 < h" "0 < b" "of_int a / of_int b < (of_int w :: rat) / of_int h"
  shows "of_int a / of_int b + 1 / (of_int b * of_int h) \<le> (of_int w :: rat) / of_int h"
proof -
  have "(of_int (a * h) :: rat) < of_int (w * b)"
    using assms by (simp add: field_simps)
  then have "a * h < w * b" by (simp only: of_int_less_iff)
  then have "a * h + 1 \<le> w * b" by simp
  then have key: "(of_int (a * h + 1) :: rat) \<le> of_int (w * b)" by (simp only: of_int_le_iff)
  have "of_int a / of_int b + 1 / (of_int b * of_int h)
          = (of_int (a * h + 1) :: rat) / (of_int b * of_int h)"
    using assms by (simp add: field_simps)
  also have "\<dots> \<le> of_int (w * b) / (of_int b * of_int h)"
    using key assms by (intro divide_right_mono) auto
  also have "\<dots> = of_int w / of_int h"
    using assms by simp
  finally show ?thesis .
qed

lemma gap_bound:
  fixes h :: int
  assumes "0 < h" "h < 2 ^ 31"
  shows "1 / (100 * 2 ^ 31) \<le> 1 / ((of_int 100 :: rat) * of_int h)"
proof -
  have "(of_int h :: rat) \<le> of_int (2 ^ 31)" using assms by (simp only: of_int_le_iff)
  then have "(of_int 100 :: rat) * of_int h \<le> 100 * 2 ^ 31" by simp
  moreover have "(0::rat) < of_int 100 * of_int h" using assms by simp
  ultimately show ?thesis by (intro divide_left_mono) auto
qed

lemma f64_ratio:
  fixes w h :: int
  assumes "0 < w" "w < 2 ^ 31" "0 < h" "h < 2 ^ 31"
  shows "f64_div (f64_of_int w) (f64_of_int h) = f64_round (of_int w / of_int h)"
proof -
  have "\<bar>w\<bar> < 2 ^ 53" "\<bar>h\<bar> < 2 ^ 53" using assms by simp_all
  then show ?thesis
    by (simp only: f64_div_def f64_of_int_def f64_round_of_int)
qed

lemma f64_round_error_num:
  "\<bar>f64_round x - x\<bar> \<le> \<bar>x\<bar> / 9007199254740992 + 1 / 1267650600228229401496703205376"
  using f64_round_error[of x] by simp

lemma gap_bound_num:
  fixes h :: int
  assumes "0 < h" "h < 2 ^ 31"
  shows "1 / 214748364800 \<le> 1 / ((of_int 100 :: rat) * of_int h)"
  using gap_bound[OF assms] by simp

lemma band_inside:
  fixes w h n :: int
  assumes w: "0 < w" "w < 2 ^ 31" and h: "0 < h" "h < 2 ^ 31" and n: "0 < n" "n \<le> 200"
    and inside: "\<bar>(of_int w :: rat) / of_int h - of_int n / 100\<bar> < 1 / 10"
  shows "math_Abs (f64_sub (f64_div (f64_of_int w) (f64_of_int h)) (f64_lit (of_int n / 100)))
           < f64_lit (1 / 10)"
proof -
  define r :: rat where "r = of_int w / of_int h"
  define c :: rat where "c = of_int n / 100"
  define R where "R = f64_round r"
  define C where "C = f64_round c"
  define D where "D = f64_round (R - C)"
  have r0: "0 < r" using w h by (simp add: r_def)
  have c0: "0 < c" "c \<le> 2" using n by (simp_all add: c_def)
  have ins: "r - c < 1 / 10" "- (1 / 10) < r - c"
    using inside unfolding r_def c_def by linarith+
  have "r < of_int (n + 10) / of_int 100" using ins(1) by (simp add: c_def field_simps)
  then have "r + 1 / (of_int 100 * of_int h) \<le> of_int (n + 10) / of_int 100"
    unfolding r_def using h by (intro ratio_gap_less) auto
  moreover have "of_int (n + 10) / of_int 100 = c + 1 / 10"
    by (simp add: c_def field_simps)
  ultimately have hi: "r + 1 / 214748364800 \<le> c + 1 / 10"
    using gap_bound_num[OF h] by linarith
  have "of_int (n - 10) / of_int 100 < r" using ins(2) by (simp add: c_def field_simps)
  then have "of_int (n - 10) / of_int 100 + 1 / (of_int 100 * of_int h) \<le> r"
    unfolding r_def using h by (intro ratio_gap_greater) auto
  moreover have "of_int (n - 10) / of_int 100 = c - 1 / 10"
    by (simp add: c_def field_simps)
  ultimately have lo: "c - 1 / 10 + 1 / 214748364800 \<le> r"
    using gap_bound_num[OF h] by linarith
  have eR: "\<bar>R - r\<bar> \<le> \<bar>r\<bar> / 9007199254740992 + 1 / 1267650600228229401496703205376"
    unfolding R_def by (rule f64_round_error_num)
  have eC: "\<bar>C - c\<bar> \<le> \<bar>c\<bar> / 9007199254740992 + 1 / 1267650600228229401496703205376"
    unfolding C_def by (rule f64_round_error_num)
  have eD: "\<bar>D - (R - C)\<bar> \<le> \<bar>R - C\<bar> / 9007199254740992 + 1 / 1267650600228229401496703205376"
    unfolding D_def by (rule f64_round_error_num)
  have r3: "r \<le> 3" using hi c0 by linarith
  have RC: "\<bar>R - C\<bar> \<le> 1 / 10 - 1 / 429496729600"
    using hi lo eR eC c0 r0 r3 by linarith
  have tri: "\<bar>D\<bar> \<le> \<bar>R - C\<bar> + \<bar>D - (R - C)\<bar>" by linarith
  define a where "a = \<bar>R - C\<bar>"
  define b where "b = \<bar>D - (R - C)\<bar>"
  have "a \<le> 1 / 10 - 1 / 429496729600"
    and "b \<le> a / 9007199254740992 + 1 / 1267650600228229401496703205376"
    and "\<bar>D\<bar> \<le> a + b"
    using RC eD tri by (simp_all only: a_def b_def)
  then have D: "\<bar>D\<bar> < 3602879701896397 / 36028797018963968"
    by linarith
  have "math_Abs (f64_sub (f64_div (f64_of_int w) (f64_of_int h)) (f64_lit (of_int n / 100))) = \<bar>D\<bar>"
    by (simp only: math_Abs_def f64_sub_def f64_ratio[OF w h] f64_lit_def D_def R_def C_def r_def c_def)
  then show ?thesis
    using D by (simp only: f64_lit_tenth)
qed

lemma band_outside:
  fixes w h n :: int
  assumes w: "0 < w" "w < 2 ^ 31" and h: "0 < h" "h < 2 ^ 31" and n: "10 \<le> n" "n \<le> 200"
    and outside: "1 / 10 < \<bar>(of_int w :: rat) / of_int h - of_int n / 100\<bar>"
  shows "\<not> math_Abs (f64_sub (f64_div (f64_of_int w) (f64_of_int h)) (f64_lit (of_int n / 100)))
           < f64_lit (1 / 10)"
proof -
  define r :: rat where "r = of_int w / of_int h"
  define c :: rat where "c = of_int n / 100"
  define R where "R = f64_round r"
  define C where "C = f64_round c"
  define D where "D = f64_round (R - C)"
  have r0: "0 < r" using w h by (simp add: r_def)
  have c0: "0 < c" "c \<le> 2" using n by (simp_all add: c_def)
  have eR: "\<bar>R - r\<bar> \<le> \<bar>r\<bar> / 9007199254740992 + 1 / 1267650600228229401496703205376"
    unfolding R_def by (rule f64_round_error_num)
  have eC: "\<bar>C - c\<bar> \<le> \<bar>c\<bar> / 9007199254740992 + 1 / 1267650600228229401496703205376"
    unfolding C_def by (rule f64_round_error_num)
  have eD: "\<bar>D - (R - C)\<bar> \<le> \<bar>R - C\<bar> / 9007199254740992 + 1 / 1267650600228229401496703205376"
    unfolding D_def by (rule f64_round_error_num)
  have out: "r - c > 1 / 10 \<or> c - r > 1 / 10"
    using outside unfolding r_def c_def by linarith
  have RC: "1 / 10 + 1 / 429496729600 \<le> \<bar>R - C\<bar>"
  proof -
    from out show ?thesis
    proof
      assume "r - c > 1 / 10"
      then have "of_int (n + 10) / of_int 100 < r" by (simp add: c_def field_simps)
      then have "of_int (n + 10) / of_int 100 + 1 / (of_int 100 * of_int h) \<le> r"
        unfolding r_def using h by (intro ratio_gap_greater) auto
      moreover have "of_int (n + 10) / of_int 100 = c + 1 / 10"
        by (simp add: c_def field_simps)
      ultimately have "c + 1 / 10 + 1 / 214748364800 \<le> r"
        using gap_bound_num[OF h] by linarith
      then show ?thesis using eR eC c0 r0 by linarith
    next
      assume "c - r > 1 / 10"
      then have "r < of_int (n - 10) / of_int 100" by (simp add: c_def field_simps)
      then have "r + 1 / (of_int 100 * of_int h) \<le> of_int (n - 10) / of_int 100"
        unfolding r_def using h by (intro ratio_gap_less) auto
      moreover have "of_int (n - 10) / of_int 100 = c - 1 / 10"
        by (simp add: c_def field_simps)
      ultimately have "r + 1 / 214748364800 \<le> c - 1 / 10"
        using gap_bound_num[OF h] by linarith
      then show ?thesis using eR eC c0 r0 by linarith
    qed
  qed
  have tri: "\<bar>R - C\<bar> \<le> \<bar>D\<bar> + \<bar>D - (R - C)\<bar>" by linarith
  define a where "a = \<bar>R - C\<bar>"
  define b where "b = \<bar>D - (R - C)\<bar>"
  have "1 / 10 + 1 / 429496729600 \<le> a"
    and "b \<le> a / 9007199254740992 + 1 / 1267650600228229401496703205376"
    and "a \<le> \<bar>D\<bar> + b"
    using RC eD tri by (simp_all only: a_def b_def)
  then have D: "\<not> \<bar>D\<bar> < 3602879701896397 / 36028797018963968"
    by linarith
  have "math_Abs (f64_sub (f64_div (f64_of_int w) (f64_of_int h)) (f64_lit (of_int n / 100))) = \<bar>D\<bar>"
    by (simp only: math_Abs_def f64_sub_def f64_ratio[OF w h] f64_lit_def D_def R_def C_def r_def c_def)
  then show ?thesis
    using D by (simp only: f64_lit_tenth not_False_eq_True)
qed

text \<open>
  For dimensions below \<open>2 ^ 31\<close> two distinct ratios differ by far more than the
  rounding errors, so the binary64 test agrees with the exact one away from the edges.
\<close>

lemma classify_bands:
  fixes w h :: int
  assumes w: "0 < w" "w < 2 ^ 31" and h: "0 < h" "h < 2 ^ 31"
  shows "(\<bar>(of_int w :: rat) / of_int h - 178 / 100\<bar> < 1 / 10
            \<longrightarrow> classify_dimensions w h = Inr ''16:9'')
       \<and> (\<bar>(of_int w :: rat) / of_int h - 56 / 100\<bar> < 1 / 10
            \<longrightarrow> classify_dimensions w h = Inr ''9:16'')
       \<and> (1 / 10 < \<bar>(of_int w :: rat) / of_int h - 178 / 100\<bar>
            \<and> 1 / 10 < \<bar>(of_int w :: rat) / of_int h - 56 / 100\<bar>
            \<longrightarrow> classify_dimensions w h = Inr ''other'')"
proof -
  let ?r = "(of_int w :: rat) / of_int h"
  let ?t = "\<lambda>c. math_Abs (f64_sub (f64_div (f64_of_int w) (f64_of_int h)) (f64_lit c)) < f64_lit (1 / 10)"
  have c178: "(178 / 100 :: rat) = of_int 178 / 100" and c56: "(56 / 100 :: rat) = of_int 56 / 100"
    by simp_all
  have in178: "\<bar>?r - 178 / 100\<bar> < 1 / 10 \<Longrightarrow> ?t (178 / 100)"
    unfolding c178 using w h by (intro band_inside) auto
  have in56: "\<bar>?r - 56 / 100\<bar> < 1 / 10 \<Longrightarrow> ?t (56 / 100)"
    unfolding c56 using w h by (intro band_inside) auto
  have out178: "1 / 10 < \<bar>?r - 178 / 100\<bar> \<Longrightarrow> \<not> ?t (178 / 100)"
    unfolding c178 using w h by (intro band_outside) auto
  have out56: "1 / 10 < \<bar>?r - 56 / 100\<bar> \<Longrightarrow> \<not> ?t (56 / 100)"
    unfolding c56 using w h by (intro band_outside) auto
  have disjoint: "\<bar>?r - 56 / 100\<bar> < 1 / 10 \<Longrightarrow> 1 / 10 < \<bar>?r - 178 / 100\<bar>"
    by linarith
  have pos: "\<not> (w \<le> 0 \<or> h \<le> 0)" using w h by simp
  show ?thesis
    using in178 in56 out178 out56 disjoint pos
    by (auto simp only: classify_dimensions_def Let_def if_True if_False)
qed

subsection \<open>Paths of the video handler\<close>

lemmas status_defs = StatusOK_def StatusBadRequest_def StatusUnauthorized_def StatusInternalServerError_def

lemmas op_defs = emit_def GetVideo_def UpdateVideo_def os_CreateTemp_def os_Create_def io_Copy_def
  os_Remove_def os_Stat_def os_Open_def PutObject_def run_ffprobe_def run_ffmpeg_def
  FormFile_def ParseMultipartForm_def io_ReadAll_def

lemma uploadVideo_processed_paths:
  assumes "uploadVideo_processed e cfg videoID v handler mt prefix p w = (resp, w')"
  shows "files w' = files w \<and> videoThumbnails w' = videoThumbnails w
       \<and> (\<exists>evs. trace w' = trace w @ evs
              \<and> processed_paths e cfg videoID v handler mt prefix p (db w) (s3 w) resp (db w') (s3 w') evs)"
  using assms
  by (auto simp add: uploadVideo_processed_def processed_paths_def op_defs status_defs Let_def
        split: option.splits prod.splits if_splits bool.splits)

lemma io_Copy_effect:
  assumes "io_Copy e dst bytes w = (ok, w1)"
  shows "db w1 = db w \<and> s3 w1 = s3 w \<and> videoThumbnails w1 = videoThumbnails w
       \<and> trace w1 = trace w @ [E_Copy dst ok]
       \<and> (\<forall>q. q \<noteq> dst \<longrightarrow> files w1 q = files w q)
       \<and> (ok \<longrightarrow> files w1 dst = Some bytes)"
  using assms by (auto simp add: io_Copy_def emit_def split: option.splits)

lemma getVideoAspectRatio_effect:
  assumes "getVideoAspectRatio e p w = (res, w1)"
  shows "w1 = w\<lparr>trace := trace w @ [E_ffprobe p]\<rparr>
       \<and> (\<forall>a. res = Inr a \<longrightarrow>
             (\<exists>out probe s0 rest. ffprobe e (files w) p = Some out \<and> json_Unmarshal e out = Some probe
                 \<and> Streams probe = s0 # rest \<and> classify_dimensions (Width s0) (Height s0) = Inr a))"
  using assms
  by (auto simp add: getVideoAspectRatio_def run_ffprobe_def emit_def
        split: option.splits list.splits)

lemma processVideoForFastStart_effect:
  assumes "processVideoForFastStart e p w = (res, w1)"
  shows "db w1 = db w \<and> s3 w1 = s3 w \<and> videoThumbnails w1 = videoThumbnails w
       \<and> (\<forall>q. q \<noteq> p @ ''.processing'' \<longrightarrow> files w1 q = files w q)
       \<and> (case res of
             Inl err \<Rightarrow> trace w1 = trace w @ [E_ffmpeg p (p @ ''.processing'')]
                        \<or> trace w1 = trace w @ [E_ffmpeg p (p @ ''.processing''), E_Stat (p @ ''.processing'')]
           | Inr outp \<Rightarrow> outp = p @ ''.processing''
                        \<and> trace w1 = trace w @ [E_ffmpeg p outp, E_Stat outp]
                        \<and> (\<exists>bytes. files w1 outp = Some bytes \<and> bytes \<noteq> []))"
  using assms
  by (auto simp add: processVideoForFastStart_def run_ffmpeg_def os_Stat_def emit_def Let_def
        split: option.splits prod.splits if_splits bool.splits sum.splits)

lemma uploadVideo_staged_paths:
  assumes "uploadVideo_staged e cfg videoID v handler mt tmp w = (resp, w')"
  shows "videoThumbnails w' = videoThumbnails w
       \<and> (\<exists>evs. trace w' = trace w @ evs
              \<and> staged_paths e cfg videoID v handler mt tmp (db w) (s3 w) resp (db w') (s3 w') (files w') evs)"
proof (cases "io_Copy e tmp (content handler) w")
  case (Pair ok w1)
  note c = io_Copy_effect[OF Pair]
  show ?thesis
  proof (cases ok)
    case False
    with assms Pair c show ?thesis
      by (auto simp add: uploadVideo_staged_def staged_paths_def status_defs)
  next
    case True
    obtain res w2 where g: "getVideoAspectRatio e tmp w1 = (res, w2)"
      by (cases "getVideoAspectRatio e tmp w1")
    note ge = getVideoAspectRatio_effect[OF g]
    show ?thesis
    proof (cases res)
      case (Inl err)
      with assms Pair True c g ge show ?thesis
        by (auto simp add: uploadVideo_staged_def staged_paths_def status_defs)
    next
      case (Inr a)
      obtain pres w3 where p: "processVideoForFastStart e tmp w2 = (pres, w3)"
        by (cases "processVideoForFastStart e tmp w2")
      note pe = processVideoForFastStart_effect[OF p]
      show ?thesis
      proof (cases pres)
        case (Inl err)
        with assms Pair True c g ge Inr p pe show ?thesis
          by (auto simp add: uploadVideo_staged_def staged_paths_def status_defs)
      next
        case (Inr outp)
        obtain resp4 w4 where u: "uploadVideo_processed e cfg videoID v handler mt (aspect_prefix a) outp w3 = (resp4, w4)"
          by (cases "uploadVideo_processed e cfg videoID v handler mt (aspect_prefix a) outp w3")
        note ue = uploadVideo_processed_paths[OF u]
        from assms Pair True g \<open>res = Inr a\<close> p Inr u
        have r: "resp = resp4" "w' = os_Remove outp w4"
          by (simp_all add: uploadVideo_staged_def)
        from pe Inr have o: "outp = tmp @ ''.processing''" by simp
        from ue obtain pevs where pv: "trace w4 = trace w3 @ pevs"
          "processed_paths e cfg videoID v handler mt (aspect_prefix a) outp (db w3) (s3 w3) resp4 (db w4) (s3 w4) pevs"
          by blast
        from ge \<open>res = Inr a\<close> obtain probe_out probe s0 rest where
          pr: "json_Unmarshal e probe_out = Some probe" "Streams probe = s0 # rest"
              "classify_dimensions (Width s0) (Height s0) = Inr a"
          by blast
        have dbs: "db w3 = db w" "s3 w3 = s3 w" "videoThumbnails w3 = videoThumbnails w"
          using c ge pe by auto
        have tr: "trace w3 = trace w @ [E_Copy tmp True, E_ffprobe tmp, E_ffmpeg tmp outp, E_Stat outp]"
          using c ge pe Inr True by auto
        have "trace w' = trace w @ ([E_Copy tmp True, E_ffprobe tmp, E_ffmpeg tmp outp, E_Stat outp] @ pevs @ [E_Remove outp])"
          using r tr pv by (simp add: os_Remove_def emit_def)
        moreover have "staged_paths e cfg videoID v handler mt tmp (db w) (s3 w) resp (db w') (s3 w') (files w')
                         ([E_Copy tmp True, E_ffprobe tmp, E_ffmpeg tmp outp, E_Stat outp] @ pevs @ [E_Remove outp])"
        proof -
          have w4: "db w' = db w4" "s3 w' = s3 w4"
            using r by (simp_all add: os_Remove_def emit_def)
          have "processed_paths e cfg videoID v handler mt (aspect_prefix a) (tmp @ ''.processing'')
                  (db w) (s3 w) resp (db w') (s3 w') pevs"
            using pv(2) dbs r(1) o w4 by simp
          moreover have "files w' (tmp @ ''.processing'') = None"
            using r o by (simp add: os_Remove_def emit_def)
          ultimately show ?thesis
            unfolding staged_paths_def Let_def o
            using pr by blast
        qed
        moreover have "videoThumbnails w' = videoThumbnails w"
          using r ue dbs by (simp add: os_Remove_def emit_def)
        ultimately show ?thesis by blast
      qed
    qed
  qed
qed

lemma staged_paths_remove:
  "staged_paths e cfg videoID v handler mt tmp d s resp d' s' fs' evs
   \<Longrightarrow> staged_paths e cfg videoID v handler mt tmp d s resp d' s' (fs'(p := None)) evs"
proof -
  assume a: "staged_paths e cfg videoID v handler mt tmp d s resp d' s' fs' evs"
  have k: "\<And>q. fs' q = None \<Longrightarrow> (fs'(p := None)) q = None" by simp
  from a show ?thesis
    unfolding staged_paths_def Let_def
    apply (elim disjE conjE exE)
        apply (rule disjI1, simp)
       apply (rule disjI1, simp)
      apply (rule disjI1, simp)
     apply (rule disjI1, simp)
    apply (rule disjI2)
    apply (intro exI conjI)
         apply assumption+
     apply (erule k)
    apply assumption
    done
qed

lemma handlerUploadVideo_paths_aux:
  "case handlerUploadVideo e cfg r w of
     (resp, w') \<Rightarrow> \<exists>evs. trace w' = trace w @ evs \<and> video_paths e cfg r w resp w' evs"
  apply (simp add: handlerUploadVideo_def video_paths_def unchanged_def MaxBytesReader_def
        GetVideo_def FormFile_def parse_body_def over_limit_def os_CreateTemp_def
        emit_def status_defs Let_def
      split: option.split sum.split prod.split)
  apply (auto dest!: uploadVideo_staged_paths simp add: os_Remove_def emit_def
           intro: staged_paths_remove)
  done

text \<open>
  Every run of the video handler follows one of the paths of \<open>video_paths\<close>.
\<close>

lemma handlerUploadVideo_paths:
  assumes "handlerUploadVideo e cfg r w = (resp, w')"
  shows "\<exists>evs. trace w' = trace w @ evs \<and> video_paths e cfg r w resp w' evs"
  using handlerUploadVideo_paths_aux[where e=e and cfg=cfg and r=r and w=w] assms by simp

subsection \<open>Concrete inputs\<close>

lemmas demo_defs = demo_cfg_def demo_env_def demo_form_def demo_request_def demo_video_def demo_world_def

lemma uuid_String_demo_id: "uuid_String demo_id = ''123e4567-e89b-12d3-a456-426614174000''"
  by code_simp

lemma classify_hd: "classify_dimensions 1920 1080 = Inr ''16:9''"
  by code_simp

lemmas handler_defs = handlerUploadVideo_def uploadVideo_staged_def uploadVideo_processed_def
  getVideoAspectRatio_def processVideoForFastStart_def MaxBytesReader_def over_limit_def parse_body_def
  uploadLimit_def maxMemory_def

subsection \<open>The handlers along their paths\<close>

lemma new_events_append: "trace w' = trace w @ evs \<Longrightarrow> new_events w w' = evs"
  by (simp add: new_events_def)

lemmas path_defs = video_paths_def staged_paths_def processed_paths_def unchanged_def

lemma video_update_after_put:
  "case handlerUploadVideo e cfg r w of
     (resp, w') \<Rightarrow> preceded_by is_PutObject_ok is_UpdateVideo (new_events w w')
                  \<and> (\<not> list_ex is_PutObject_ok (new_events w w') \<longrightarrow> db w' = db w)"
proof -
  obtain resp w' where run: "handlerUploadVideo e cfg r w = (resp, w')"
    by (cases "handlerUploadVideo e cfg r w")
  from handlerUploadVideo_paths[OF run] obtain evs where
    t: "trace w' = trace w @ evs" and p: "video_paths e cfg r w resp w' evs" by blast
  have "preceded_by is_PutObject_ok is_UpdateVideo evs \<and> (\<not> list_ex is_PutObject_ok evs \<longrightarrow> db w' = db w)"
    using p by (auto simp add: path_defs Let_def split: option.splits if_splits)
  then show ?thesis using run new_events_append[OF t] by simp
qed

lemmas early_defs = GetVideo_def FormFile_def ParseMultipartForm_def parse_body_def over_limit_def
  os_Create_def io_Copy_def io_ReadAll_def UpdateVideo_def emit_def status_defs

lemma disk_update_after_copy:
  "case handlerUploadThumbnail_disk e cfg r w of
     (resp, w') \<Rightarrow> preceded_by is_Copy_ok is_UpdateVideo (new_events w w')
                  \<and> (\<not> list_ex is_Copy_ok (new_events w w') \<longrightarrow> db w' = db w)"
  by (simp add: handlerUploadThumbnail_disk_def early_defs new_events_def Let_def
        split: option.split sum.split prod.split bool.split)

lemma map_update_after_store:
  "case handlerUploadThumbnail_map e cfg r w of
     (resp, w') \<Rightarrow> preceded_by is_MapStore is_UpdateVideo (new_events w w')
                  \<and> (\<not> list_ex is_MapStore (new_events w w') \<longrightarrow> db w' = db w)"
  by (simp add: handlerUploadThumbnail_map_def early_defs new_events_def Let_def
        split: option.split sum.split prod.split bool.split)

declare strings_ReplaceAll.simps [simp del]

lemma strings_ReplaceAll_hyphen:
  "strings_ReplaceAll s ''-'' [] = filter (\<lambda>c. c \<noteq> CHR ''-'') s"
proof (induction s)
  case Nil
  show ?case by (simp add: strings_ReplaceAll.simps[of "[]"])
next
  case (Cons c cs)
  show ?case
    using Cons.IH by (simp add: strings_ReplaceAll.simps[of "c # cs"])
qed

lemma object_key_eq:
  "object_key prefix videoID filename =
     prefix @ ''/'' @ filter (\<lambda>c. c \<noteq> CHR ''-'') (uuid_String videoID)
       @ (if filepath_Ext filename = [] then ''.mp4'' else filepath_Ext filename)"
  by (simp add: object_key_def Let_def strings_ReplaceAll_hyphen)

lemma video_paths_run:
  obtains evs where "trace (snd (handlerUploadVideo e cfg r w)) = trace w @ evs"
    and "video_paths e cfg r w (fst (handlerUploadVideo e cfg r w)) (snd (handlerUploadVideo e cfg r w)) evs"
    and "new_events w (snd (handlerUploadVideo e cfg r w)) = evs"
proof -
  obtain resp w' where run: "handlerUploadVideo e cfg r w = (resp, w')"
    by (cases "handlerUploadVideo e cfg r w")
  from handlerUploadVideo_paths[OF run] obtain evs where
    "trace w' = trace w @ evs" "video_paths e cfg r w resp w' evs" by blast
  then show ?thesis using that run new_events_append by simp
qed

lemma video_bad_type:
  assumes "declared_type e r ''video'' \<noteq> Some ''video/mp4''"
  shows "case handlerUploadVideo e cfg r w of
     (resp, w') \<Rightarrow>
        (status resp = 400 \<or> status resp = 401
           \<or> (status resp = 500 \<and> \<not> list_ex is_GetVideo_ok (new_events w w')))
        \<and> unchanged w w' \<and> \<not> list_ex is_staging (new_events w w')"
proof -
  obtain evs where t: "new_events w (snd (handlerUploadVideo e cfg r w)) = evs"
    and p: "video_paths e cfg r w (fst (handlerUploadVideo e cfg r w)) (snd (handlerUploadVideo e cfg r w)) evs"
    by (rule video_paths_run)
  show ?thesis
    using p assms unfolding t[symmetric]
    by (auto simp add: video_paths_def declared_type_def case_prod_beta split: option.splits if_splits)
qed

lemma handlerUploadThumbnail_disk_paths:
  "case handlerUploadThumbnail_disk e cfg r w of
     (resp, w') \<Rightarrow> \<exists>evs. trace w' = trace w @ evs \<and> disk_paths e cfg r w resp w' evs"
  by (simp add: handlerUploadThumbnail_disk_def disk_paths_def unchanged_def early_defs Let_def
        split: option.split sum.split prod.split bool.split)

lemma handlerUploadThumbnail_map_paths:
  "case handlerUploadThumbnail_map e cfg r w of
     (resp, w') \<Rightarrow> \<exists>evs. trace w' = trace w @ evs \<and> map_paths e cfg r w resp w' evs"
  by (simp add: handlerUploadThumbnail_map_def map_paths_def unchanged_def early_defs Let_def
        split: option.split sum.split prod.split bool.split)

lemma disk_paths_run:
  obtains evs where "disk_paths e cfg r w (fst (handlerUploadThumbnail_disk e cfg r w))
                       (snd (handlerUploadThumbnail_disk e cfg r w)) evs"
    and "new_events w (snd (handlerUploadThumbnail_disk e cfg r w)) = evs"
  using handlerUploadThumbnail_disk_paths[where e=e and cfg=cfg and r=r and w=w] new_events_append
  by (auto simp add: case_prod_beta)

lemma map_paths_run:
  obtains evs where "map_paths e cfg r w (fst (handlerUploadThumbnail_map e cfg r w))
                       (snd (handlerUploadThumbnail_map e cfg r w)) evs"
    and "new_events w (snd (handlerUploadThumbnail_map e cfg r w)) = evs"
  using handlerUploadThumbnail_map_paths[where e=e and cfg=cfg and r=r and w=w] new_events_append
  by (auto simp add: case_prod_beta)

lemma disk_bad_type:
  assumes "declared_type e r ''thumbnail'' \<noteq> Some ''image/jpeg''"
      and "declared_type e r ''thumbnail'' \<noteq> Some ''image/png''"
  shows "case handlerUploadThumbnail_disk e cfg r w of
     (resp, w') \<Rightarrow> (status resp = 400 \<or> status resp = 401)
        \<and> unchanged w w' \<and> \<not> list_ex is_staging (new_events w w')"
proof -
  obtain evs where p: "disk_paths e cfg r w (fst (handlerUploadThumbnail_disk e cfg r w))
                       (snd (handlerUploadThumbnail_disk e cfg r w)) evs"
    and t: "new_events w (snd (handlerUploadThumbnail_disk e cfg r w)) = evs"
    by (rule disk_paths_run)
  show ?thesis
    using p assms unfolding t[symmetric]
    by (auto simp add: disk_paths_def declared_type_def case_prod_beta split: option.splits if_splits)
qed

lemma video_nonowner:
  assumes "uuid_Parse e (PathValue_videoID r) = Some videoID"
      and "GetBearerToken e (Header r) = Some token"
      and "ValidateJWT e token (jwtSecret cfg) = Some userID"
      and "db w videoID = Some v" and "UserID v \<noteq> userID"
  shows "case handlerUploadVideo e cfg r w of
     (resp, w') \<Rightarrow> status resp = 401 \<and> unchanged w w'
        \<and> new_events w w' = [E_GetVideo videoID True]"
proof -
  obtain evs where t: "new_events w (snd (handlerUploadVideo e cfg r w)) = evs"
    and p: "video_paths e cfg r w (fst (handlerUploadVideo e cfg r w)) (snd (handlerUploadVideo e cfg r w)) evs"
    by (rule video_paths_run)
  show ?thesis
    using p assms unfolding t[symmetric]
    by (simp add: video_paths_def case_prod_beta)
qed

lemma disk_nonowner:
  assumes "uuid_Parse e (PathValue_videoID r) = Some videoID"
      and "GetBearerToken e (Header r) = Some token"
      and "ValidateJWT e token (jwtSecret cfg) = Some userID"
      and "db w videoID = Some v" and "UserID v \<noteq> userID"
  shows "case handlerUploadThumbnail_disk e cfg r w of
     (resp, w') \<Rightarrow> (status resp = 400 \<or> status resp = 401 \<or> status resp = 500)
        \<and> (list_ex is_GetVideo_ok (new_events w w') \<longrightarrow> status resp = 401)
        \<and> db w' = db w \<and> \<not> list_ex is_UpdateVideo (new_events w w')"
proof -
  obtain evs where p: "disk_paths e cfg r w (fst (handlerUploadThumbnail_disk e cfg r w))
                       (snd (handlerUploadThumbnail_disk e cfg r w)) evs"
    and t: "new_events w (snd (handlerUploadThumbnail_disk e cfg r w)) = evs"
    by (rule disk_paths_run)
  show ?thesis
    using p assms unfolding t[symmetric]
    by (auto simp add: disk_paths_def unchanged_def case_prod_beta Let_def split: option.splits if_splits)
qed

lemma map_nonowner:
  assumes "uuid_Parse e (PathValue_videoID r) = Some videoID"
      and "GetBearerToken e (Header r) = Some token"
      and "ValidateJWT e token (jwtSecret cfg) = Some userID"
      and "db w videoID = Some v" and "UserID v \<noteq> userID"
  shows "case handlerUploadThumbnail_map e cfg r w of
     (resp, w') \<Rightarrow> (status resp = 400 \<or> status resp = 401 \<or> status resp = 500)
        \<and> (list_ex is_GetVideo_ok (new_events w w') \<longrightarrow> status resp = 401)
        \<and> unchanged w w' \<and> \<not> list_ex is_UpdateVideo (new_events w w')
        \<and> \<not> list_ex is_MapStore (new_events w w')"
proof -
  obtain evs where p: "map_paths e cfg r w (fst (handlerUploadThumbnail_map e cfg r w))
                       (snd (handlerUploadThumbnail_map e cfg r w)) evs"
    and t: "new_events w (snd (handlerUploadThumbnail_map e cfg r w)) = evs"
    by (rule map_paths_run)
  show ?thesis
    using p assms unfolding t[symmetric]
    by (auto simp add: map_paths_def unchanged_def case_prod_beta Let_def split: option.splits if_splits)
qed

lemma video_lookup_first:
  "case handlerUploadVideo e cfg r w of
     (resp, w') \<Rightarrow> preceded_by is_GetVideo_ok is_extraction_or_staging (new_events w w')"
proof -
  obtain evs where t: "new_events w (snd (handlerUploadVideo e cfg r w)) = evs"
    and p: "video_paths e cfg r w (fst (handlerUploadVideo e cfg r w)) (snd (handlerUploadVideo e cfg r w)) evs"
    by (rule video_paths_run)
  show ?thesis
    using p unfolding t[symmetric]
    by (auto simp add: video_paths_def case_prod_beta split: option.splits if_splits)
qed

lemma map_lookup_before_store:
  "case handlerUploadThumbnail_map e cfg r w of
     (resp, w') \<Rightarrow> preceded_by is_GetVideo_ok is_MapStore (new_events w w')"
proof -
  obtain evs where p: "map_paths e cfg r w (fst (handlerUploadThumbnail_map e cfg r w))
                       (snd (handlerUploadThumbnail_map e cfg r w)) evs"
    and t: "new_events w (snd (handlerUploadThumbnail_map e cfg r w)) = evs"
    by (rule map_paths_run)
  show ?thesis
    using p unfolding t[symmetric]
    by (auto simp add: map_paths_def case_prod_beta Let_def split: option.splits if_splits)
qed

lemma video_oversize:
  assumes "uploadLimit < form_length r"
  shows "case handlerUploadVideo e cfg r w of
     (resp, w') \<Rightarrow>
        (status resp = 400 \<or> status resp = 401
           \<or> (status resp = 500 \<and> \<not> list_ex is_GetVideo_ok (new_events w w')))
        \<and> (list_ex is_extraction_or_staging (new_events w w')
              \<longrightarrow> status resp = 400 \<and> last (new_events w w') = E_FormFile ''video'' False)
        \<and> unchanged w w' \<and> \<not> list_ex is_staging (new_events w w')"
proof -
  obtain evs where t: "new_events w (snd (handlerUploadVideo e cfg r w)) = evs"
    and p: "video_paths e cfg r w (fst (handlerUploadVideo e cfg r w)) (snd (handlerUploadVideo e cfg r w)) evs"
    by (rule video_paths_run)
  show ?thesis
    using p assms unfolding t[symmetric]
    by (auto simp add: video_paths_def case_prod_beta split: option.splits if_splits)
qed

lemma processed_paths_success:
  assumes "processed_paths e cfg videoID v handler mt prefix p d s resp d' s' evs"
      and "status resp = 200"
  shows "\<exists>body. resp = respondWithJSON 200 (v\<lparr>VideoURL := Some (getObjectURL e (object_key prefix videoID (Filename handler)))\<rparr>)
           \<and> d' = d(ID v \<mapsto> v\<lparr>VideoURL := Some (getObjectURL e (object_key prefix videoID (Filename handler)))\<rparr>)
           \<and> s' = s((s3Bucket cfg, object_key prefix videoID (Filename handler)) \<mapsto> (body, mt))
           \<and> evs = [E_Open p True, E_PutObject (s3Bucket cfg) (object_key prefix videoID (Filename handler)) True,
                      E_UpdateVideo (v\<lparr>VideoURL := Some (getObjectURL e (object_key prefix videoID (Filename handler)))\<rparr>) True]"
  using assms unfolding processed_paths_def Let_def by auto

lemma staged_paths_success:
  assumes "staged_paths e cfg videoID v handler mt tmp d s resp d' s' fs' evs"
      and "status resp = 200"
  shows "\<exists>a probe_out probe s0 rest pevs.
           json_Unmarshal e probe_out = Some probe \<and> Streams probe = s0 # rest
         \<and> classify_dimensions (Width s0) (Height s0) = Inr a
         \<and> fs' (tmp @ ''.processing'') = None
         \<and> evs = [E_Copy tmp True, E_ffprobe tmp, E_ffmpeg tmp (tmp @ ''.processing''),
                    E_Stat (tmp @ ''.processing'')] @ pevs @ [E_Remove (tmp @ ''.processing'')]
         \<and> processed_paths e cfg videoID v handler mt (aspect_prefix a) (tmp @ ''.processing'')
               d s resp d' s' pevs"
  using assms unfolding staged_paths_def Let_def
  by (elim disjE exE conjE; (simp; fail) | blast)

lemma video_paths_success:
  assumes "video_paths e cfg r w resp w' evs" and "status resp = 200"
  shows "\<exists>videoID v form part tmp sevs.
           uuid_Parse e (PathValue_videoID r) = Some videoID \<and> db w videoID = Some v
         \<and> multipart r = Some form \<and> form ''video'' = Some part
         \<and> files w' tmp = None
         \<and> evs = [E_GetVideo videoID True, E_FormFile ''video'' True, E_CreateTemp (Some tmp)]
                    @ sevs @ [E_Remove tmp]
         \<and> staged_paths e cfg videoID v part ''video/mp4'' tmp (db w) (s3 w) resp
               (db w') (s3 w') (files w') sevs"
  using assms unfolding video_paths_def
  by (auto split: option.splits if_splits)

text \<open>
  The one path of the video handler that ends with status 200.
\<close>

lemma video_success:
  assumes ok: "status (fst (handlerUploadVideo e cfg r w)) = 200"
  obtains videoID v form part tmp a probe_out probe s0 rest body key v' where
    "uuid_Parse e (PathValue_videoID r) = Some videoID" and "db w videoID = Some v"
    and "multipart r = Some form" and "form ''video'' = Some part"
    and "json_Unmarshal e probe_out = Some probe" and "Streams probe = s0 # rest"
    and "classify_dimensions (Width s0) (Height s0) = Inr a"
    and "key = object_key (aspect_prefix a) videoID (Filename part)"
    and "v' = v\<lparr>VideoURL := Some (getObjectURL e key)\<rparr>"
    and "fst (handlerUploadVideo e cfg r w) = respondWithJSON 200 v'"
    and "db (snd (handlerUploadVideo e cfg r w)) = (db w)(ID v \<mapsto> v')"
    and "s3 (snd (handlerUploadVideo e cfg r w))
           = (s3 w)((s3Bucket cfg, key) \<mapsto> (body, ''video/mp4''))"
    and "files (snd (handlerUploadVideo e cfg r w)) tmp = None"
    and "files (snd (handlerUploadVideo e cfg r w)) (tmp @ ''.processing'') = None"
    and "new_events w (snd (handlerUploadVideo e cfg r w)) =
           [E_GetVideo videoID True, E_FormFile ''video'' True, E_CreateTemp (Some tmp),
            E_Copy tmp True, E_ffprobe tmp, E_ffmpeg tmp (tmp @ ''.processing''),
            E_Stat (tmp @ ''.processing''), E_Open (tmp @ ''.processing'') True,
            E_PutObject (s3Bucket cfg) key True, E_UpdateVideo v' True,
            E_Remove (tmp @ ''.processing''), E_Remove tmp]"
proof -
  let ?H = "handlerUploadVideo e cfg r w"
  obtain evs where t: "new_events w (snd ?H) = evs"
    and p: "video_paths e cfg r w (fst ?H) (snd ?H) evs"
    by (rule video_paths_run)
  from video_paths_success[OF p ok] obtain videoID v form part tmp sevs where
    a: "uuid_Parse e (PathValue_videoID r) = Some videoID" "db w videoID = Some v"
       "multipart r = Some form" "form ''video'' = Some part" "files (snd ?H) tmp = None"
       "evs = [E_GetVideo videoID True, E_FormFile ''video'' True, E_CreateTemp (Some tmp)]
                @ sevs @ [E_Remove tmp]"
    and sp: "staged_paths e cfg videoID v part ''video/mp4'' tmp (db w) (s3 w) (fst ?H)
               (db (snd ?H)) (s3 (snd ?H)) (files (snd ?H)) sevs"
    by blast
  from staged_paths_success[OF sp ok] obtain a probe_out probe s0 rest pevs where
    b: "json_Unmarshal e probe_out = Some probe" "Streams probe = s0 # rest"
       "classify_dimensions (Width s0) (Height s0) = Inr a"
       "files (snd ?H) (tmp @ ''.processing'') = None"
       "sevs = [E_Copy tmp True, E_ffprobe tmp, E_ffmpeg tmp (tmp @ ''.processing''),
                E_Stat (tmp @ ''.processing'')] @ pevs @ [E_Remove (tmp @ ''.processing'')]"
    and pp: "processed_paths e cfg videoID v part ''video/mp4'' (aspect_prefix a)
               (tmp @ ''.processing'') (db w) (s3 w) (fst ?H) (db (snd ?H)) (s3 (snd ?H)) pevs"
    by blast
  from processed_paths_success[OF pp ok] obtain body where
    c: "fst ?H = respondWithJSON 200 (v\<lparr>VideoURL := Some (getObjectURL e (object_key (aspect_prefix a) videoID (Filename part)))\<rparr>)"
       "db (snd ?H) = (db w)(ID v \<mapsto> v\<lparr>VideoURL := Some (getObjectURL e (object_key (aspect_prefix a) videoID (Filename part)))\<rparr>)"
       "s3 (snd ?H) = (s3 w)((s3Bucket cfg, object_key (aspect_prefix a) videoID (Filename part)) \<mapsto> (body, ''video/mp4''))"
       "pevs = [E_Open (tmp @ ''.processing'') True,
                E_PutObject (s3Bucket cfg) (object_key (aspect_prefix a) videoID (Filename part)) True,
                E_UpdateVideo (v\<lparr>VideoURL := Some (getObjectURL e (object_key (aspect_prefix a) videoID (Filename part)))\<rparr>) True]"
    by blast
  show ?thesis
    using a b c t
    by (intro that[of videoID v form part probe_out probe s0 rest a
                     "object_key (aspect_prefix a) videoID (Filename part)"
                     "v\<lparr>VideoURL := Some (getObjectURL e (object_key (aspect_prefix a) videoID (Filename part)))\<rparr>"
                     body tmp]) simp_all
qed


subsection \<open>Object keys, the repackager, temporary files\<close>

lemmas eval_defs = handlerUploadVideo_def uploadVideo_staged_def uploadVideo_processed_def
  getVideoAspectRatio_def processVideoForFastStart_def MaxBytesReader_def over_limit_def parse_body_def
  uploadLimit_def maxMemory_def op_defs demo_defs status_defs aspect_prefix_def Let_def
  new_events_def leaky_env_def aborting_env_def







text \<open>
  The key for some file names: with an extension, without one, with two dots, ending in a
  dot, starting with a dot, and with a dot only in a directory.
\<close>

lemma object_key_examples:
  "object_key ''landscape'' demo_id ''clip.mov'' = ''landscape/123e4567e89b12d3a456426614174000.mov''"
  "object_key ''portrait'' demo_id ''clip'' = ''portrait/123e4567e89b12d3a456426614174000.mp4''"
  "object_key ''other'' demo_id ''archive.tar.gz'' = ''other/123e4567e89b12d3a456426614174000.gz''"
  "object_key ''other'' demo_id ''clip.'' = ''other/123e4567e89b12d3a456426614174000.''"
  "object_key ''other'' demo_id ''.hidden'' = ''other/123e4567e89b12d3a456426614174000.hidden''"
  "object_key ''other'' demo_id ''v1.2/clip'' = ''other/123e4567e89b12d3a456426614174000.mp4''"
  by (simp_all add: object_key_eq uuid_String_demo_id filepath_Ext_def)


text \<open>
  Claim C6. \<open>processVideoForFastStart\<close> either fails, or returns the input path suffixed
  with \<open>.processing\<close>, which differs from the input path and names an existing, non-empty
  file. When the tool rejects a missing input (its exit-code contract), a missing input
  file makes the function fail.
\<close>

theorem processVideoForFastStart_result:
  "(case fst (processVideoForFastStart e filePath w) of
      Inl err \<Rightarrow> True
    | Inr outp \<Rightarrow> outp = filePath @ ''.processing'' \<and> outp \<noteq> filePath
        \<and> (\<exists>bytes. files (snd (processVideoForFastStart e filePath w)) outp = Some bytes
                \<and> bytes \<noteq> []))
   \<and> ((\<forall>fs i outp. fs i = None \<longrightarrow> \<not> fst (ffmpeg e fs i outp))
        \<longrightarrow> files w filePath = None
        \<longrightarrow> isl (fst (processVideoForFastStart e filePath w)))"
proof (intro conjI impI)
  show "case fst (processVideoForFastStart e filePath w) of
      Inl err \<Rightarrow> True
    | Inr outp \<Rightarrow> outp = filePath @ ''.processing'' \<and> outp \<noteq> filePath
        \<and> (\<exists>bytes. files (snd (processVideoForFastStart e filePath w)) outp = Some bytes
                \<and> bytes \<noteq> [])"
    by (simp add: processVideoForFastStart_def run_ffmpeg_def os_Stat_def emit_def Let_def
          split: option.split prod.split bool.split sum.split)
next
  assume "\<forall>fs i outp. fs i = None \<longrightarrow> \<not> fst (ffmpeg e fs i outp)"
    and "files w filePath = None"
  then have "\<not> fst (ffmpeg e (files w) filePath (filePath @ ''.processing''))"
    by blast
  then show "isl (fst (processVideoForFastStart e filePath w))"
    by (simp add: processVideoForFastStart_def run_ffmpeg_def Let_def case_prod_beta)
qed

text \<open>
  Claim C3 fails on the code. The removal of the repackaged file is deferred only after
  \<open>processVideoForFastStart\<close> has returned a path. When the tool exits with success and an
  empty output, or exits with failure after writing part of its output, the function
  returns an error, the handler answers 500, and the file \<open>.processing\<close> that did not exist
  before the request is still there afterwards.
\<close>

theorem processed_file_left_behind:
  "fst (handlerUploadVideo leaky_env demo_cfg (demo_request ''alice-token'') demo_world)
     = respondWithError 500 ''Could not process video for fast start''
   \<and> files demo_world ''/tmp/tubely-upload-1.mp4.processing'' = None
   \<and> files (snd (handlerUploadVideo leaky_env demo_cfg (demo_request ''alice-token'') demo_world))
        ''/tmp/tubely-upload-1.mp4.processing'' = Some []
   \<and> fst (handlerUploadVideo aborting_env demo_cfg (demo_request ''alice-token'') demo_world)
     = respondWithError 500 ''Could not process video for fast start''
   \<and> files (snd (handlerUploadVideo aborting_env demo_cfg (demo_request ''alice-token'') demo_world))
        ''/tmp/tubely-upload-1.mp4.processing'' = Some ''ftyp''"
  by (simp add: eval_defs classify_hd)





text \<open>
  C6 with a tool that copies its input and fails on a missing one: the missing input fails,
  the present one is repackaged into a non-empty file.
\<close>

theorem processVideoForFastStart_result_witness:
  "ffmpeg demo_env = (\<lambda>fs i outp. case fs i of None \<Rightarrow> (False, None) | Some bytes \<Rightarrow> (True, Some bytes))
   \<and> files demo_world ''/tmp/missing.mp4'' = None
   \<and> isl (fst (processVideoForFastStart demo_env ''/tmp/missing.mp4'' demo_world))
   \<and> fst (processVideoForFastStart demo_env ''/tmp/in.mp4''
             (demo_world\<lparr>files := [''/tmp/in.mp4'' \<mapsto> ''mp4-bytes'']\<rparr>))
       = Inr ''/tmp/in.mp4.processing''
   \<and> files (snd (processVideoForFastStart demo_env ''/tmp/in.mp4''
             (demo_world\<lparr>files := [''/tmp/in.mp4'' \<mapsto> ''mp4-bytes'']\<rparr>)))
         ''/tmp/in.mp4.processing'' = Some ''mp4-bytes''"
proof -
  have c: "\<forall>fs i outp. fs i = None \<longrightarrow> \<not> fst (ffmpeg demo_env fs i outp)"
    by (simp add: demo_env_def)
  have m: "files demo_world ''/tmp/missing.mp4'' = None"
    by (simp add: demo_world_def)
  have r: "fst (processVideoForFastStart demo_env ''/tmp/in.mp4''
             (demo_world\<lparr>files := [''/tmp/in.mp4'' \<mapsto> ''mp4-bytes'']\<rparr>))
            = Inr ''/tmp/in.mp4.processing''"
    by (simp add: eval_defs)
  from processVideoForFastStart_result[where e=demo_env and filePath="''/tmp/in.mp4''"
         and w="demo_world\<lparr>files := [''/tmp/in.mp4'' \<mapsto> ''mp4-bytes'']\<rparr>"]
  have s: "files (snd (processVideoForFastStart demo_env ''/tmp/in.mp4''
             (demo_world\<lparr>files := [''/tmp/in.mp4'' \<mapsto> ''mp4-bytes'']\<rparr>)))
         ''/tmp/in.mp4.processing'' = Some ''mp4-bytes''"
    by (simp add: eval_defs)
  from processVideoForFastStart_result[where e=demo_env and filePath="''/tmp/missing.mp4''"
         and w=demo_world] c m
  have "isl (fst (processVideoForFastStart demo_env ''/tmp/missing.mp4'' demo_world))"
    by blast
  moreover have "ffmpeg demo_env
                   = (\<lambda>fs i outp. case fs i of None \<Rightarrow> (False, None) | Some bytes \<Rightarrow> (True, Some bytes))"
    by (simp add: demo_env_def)
  ultimately show ?thesis using m r s by (intro conjI)
qed

lemmas eval5_defs = eval_defs overlong_form_request_def probe_env_def probe_world_def html_request_def fieldless_request_def
  oversize_request_def handlerUploadThumbnail_disk_def handlerUploadThumbnail_map_def
  filepath_Join_def declared_type_def unchanged_def

subsection \<open>The classifier\<close>

lemma classify_edges:
  "classify_dimensions 47 25 = Inr ''16:9''" "classify_dimensions 42 25 = Inr ''other''"
  "classify_dimensions 33 50 = Inr ''9:16''" "classify_dimensions 23 50 = Inr ''other''"
  by code_simp+

lemma classify_huge:
  "classify_dimensions 52917295621603329 28147497671065600 = Inr ''16:9''"
  by code_simp

text \<open>
  Claim C1 as stated fails on the code. The ratios 47/25 and 42/25 are both exactly 0.1 from
  1.78, yet the first is classified \<open>16:9\<close> and the second \<open>other\<close>; the ratios 33/50
  and 23/50 are both exactly 0.1 from 0.56, yet the first is \<open>9:16\<close> and the second
  \<open>other\<close>. So no reading of ``within 0.1'' (inclusive or strict) describes the result at
  the band edges. With 64-bit dimensions the conversion to binary64 also rounds: the last
  pair is strictly outside the band and still classified \<open>16:9\<close>.
\<close>

theorem band_edge_counterexample:
  "fst (getVideoAspectRatio (probe_env 47 25) ''/tmp/v.mp4'' probe_world) = Inr ''16:9''
   \<and> \<bar>(47 :: rat) / 25 - 178 / 100\<bar> = 1 / 10
   \<and> fst (getVideoAspectRatio (probe_env 42 25) ''/tmp/v.mp4'' probe_world) = Inr ''other''
   \<and> \<bar>(42 :: rat) / 25 - 178 / 100\<bar> = 1 / 10
   \<and> fst (getVideoAspectRatio (probe_env 33 50) ''/tmp/v.mp4'' probe_world) = Inr ''9:16''
   \<and> \<bar>(33 :: rat) / 50 - 56 / 100\<bar> = 1 / 10
   \<and> fst (getVideoAspectRatio (probe_env 23 50) ''/tmp/v.mp4'' probe_world) = Inr ''other''
   \<and> \<bar>(23 :: rat) / 50 - 56 / 100\<bar> = 1 / 10
   \<and> fst (getVideoAspectRatio (probe_env 52917295621603329 28147497671065600) ''/tmp/v.mp4'' probe_world)
       = Inr ''16:9''
   \<and> 1 / 10 < \<bar>(52917295621603329 :: rat) / 28147497671065600 - 178 / 100\<bar>"
  by (simp add: eval5_defs classify_edges classify_huge)

lemma classify_positive:
  assumes "0 < width" "0 < height"
  shows "classify_dimensions width height = Inr ''16:9''
       \<or> classify_dimensions width height = Inr ''9:16''
       \<or> classify_dimensions width height = Inr ''other''"
  using assms by (simp add: classify_dimensions_def Let_def)

lemma classify_nonpositive:
  assumes "width \<le> 0 \<or> height \<le> 0"
  shows "isl (classify_dimensions width height)"
  using assms by (auto simp add: classify_dimensions_def)

lemma getVideoAspectRatio_first_stream:
  assumes "ffprobe e (files w) filePath = Some out" and "json_Unmarshal e out = Some response"
      and "Streams response = s0 # rest"
  shows "fst (getVideoAspectRatio e filePath w) = classify_dimensions (Width s0) (Height s0)"
  using assms by (simp add: getVideoAspectRatio_def run_ffprobe_def)

text \<open>
  Claim C1, as amended. When the probe succeeds and its output parses with a first stream,
  \<open>getVideoAspectRatio\<close> fails if the width or the height of that stream is not positive,
  and returns one of \<open>16:9\<close>, \<open>9:16\<close>, \<open>other\<close> otherwise. For positive dimensions
  below \<open>2 ^ 31\<close> it returns \<open>16:9\<close> when the exact ratio is strictly less than 0.1 from
  1.78, \<open>9:16\<close> when it is strictly less than 0.1 from 0.56, and \<open>other\<close> when it is
  strictly more than 0.1 from both. Ratios exactly 0.1 from a reference are left to the
  rounding of the binary64 operations.
\<close>

theorem getVideoAspectRatio_bands:
  assumes "ffprobe e (files w) filePath = Some out" and "json_Unmarshal e out = Some response"
      and "Streams response = s0 # rest"
  shows "(Width s0 \<le> 0 \<or> Height s0 \<le> 0 \<longrightarrow> isl (fst (getVideoAspectRatio e filePath w)))
       \<and> (0 < Width s0 \<and> 0 < Height s0 \<longrightarrow>
             fst (getVideoAspectRatio e filePath w) = Inr ''16:9''
           \<or> fst (getVideoAspectRatio e filePath w) = Inr ''9:16''
           \<or> fst (getVideoAspectRatio e filePath w) = Inr ''other'')
       \<and> (0 < Width s0 \<and> Width s0 < 2 ^ 31 \<and> 0 < Height s0 \<and> Height s0 < 2 ^ 31 \<longrightarrow>
             (\<bar>(of_int (Width s0) :: rat) / of_int (Height s0) - 178 / 100\<bar> < 1 / 10
                \<longrightarrow> fst (getVideoAspectRatio e filePath w) = Inr ''16:9'')
           \<and> (\<bar>(of_int (Width s0) :: rat) / of_int (Height s0) - 56 / 100\<bar> < 1 / 10
                \<longrightarrow> fst (getVideoAspectRatio e filePath w) = Inr ''9:16'')
           \<and> (1 / 10 < \<bar>(of_int (Width s0) :: rat) / of_int (Height s0) - 178 / 100\<bar>
                \<and> 1 / 10 < \<bar>(of_int (Width s0) :: rat) / of_int (Height s0) - 56 / 100\<bar>
                \<longrightarrow> fst (getVideoAspectRatio e filePath w) = Inr ''other''))"
  unfolding getVideoAspectRatio_first_stream[OF assms]
  using classify_bands[of "Width s0" "Height s0"] classify_positive[of "Width s0" "Height s0"]
    classify_nonpositive[of "Width s0" "Height s0"]
  by blast

text \<open>
  The amended C1 at four probes: 1920 by 1080, 1080 by 1920, 1000 by 1000, and a first stream
  of width 0.
\<close>

theorem getVideoAspectRatio_bands_witness:
  "fst (getVideoAspectRatio (probe_env 1920 1080) ''/tmp/v.mp4'' probe_world) = Inr ''16:9''
   \<and> fst (getVideoAspectRatio (probe_env 1080 1920) ''/tmp/v.mp4'' probe_world) = Inr ''9:16''
   \<and> fst (getVideoAspectRatio (probe_env 1000 1000) ''/tmp/v.mp4'' probe_world) = Inr ''other''
   \<and> isl (fst (getVideoAspectRatio (probe_env 0 1080) ''/tmp/v.mp4'' probe_world))"
proof -
  have p: "\<And>a b. ffprobe (probe_env a b) (files probe_world) ''/tmp/v.mp4'' = Some ''{streams}''"
    by (simp add: eval5_defs)
  have j: "\<And>a b. json_Unmarshal (probe_env a b) ''{streams}''
             = Some \<lparr>Streams = [\<lparr>Width = a, Height = b\<rparr>]\<rparr>"
    by (simp add: eval5_defs)
  have s: "\<And>a b. Streams \<lparr>Streams = [\<lparr>Width = a, Height = b\<rparr>]\<rparr> = \<lparr>Width = a, Height = b\<rparr> # []"
    by simp
  from getVideoAspectRatio_bands[OF p j s, of 1920 1080]
  have a: "fst (getVideoAspectRatio (probe_env 1920 1080) ''/tmp/v.mp4'' probe_world) = Inr ''16:9''"
    by simp
  from getVideoAspectRatio_bands[OF p j s, of 1080 1920]
  have b: "fst (getVideoAspectRatio (probe_env 1080 1920) ''/tmp/v.mp4'' probe_world) = Inr ''9:16''"
    by simp
  from getVideoAspectRatio_bands[OF p j s, of 1000 1000]
  have c: "fst (getVideoAspectRatio (probe_env 1000 1000) ''/tmp/v.mp4'' probe_world) = Inr ''other''"
    by simp
  from getVideoAspectRatio_bands[OF p j s, of 0 1080]
  have d: "isl (fst (getVideoAspectRatio (probe_env 0 1080) ''/tmp/v.mp4'' probe_world))"
    by simp
  from a b c d show ?thesis by (intro conjI)
qed

subsection \<open>Content types and ownership\<close>

lemma alice_not_bob: "alice \<noteq> bob"
  by (simp add: alice_def bob_def)

text \<open>
  Claim C2, as amended. A video upload whose form part \<open>video\<close> does not declare a type
  that parses to \<open>video/mp4\<close>, and an upload to the assets-directory thumbnail handler
  whose part \<open>thumbnail\<close> declares neither \<open>image/jpeg\<close> nor \<open>image/png\<close>, is answered
  with an error and leaves files, database, object store and thumbnail map as they were; no
  temporary file is created, nothing is written or put. The answer is 400 or 401, or, for
  video, 500 when the record lookup has failed first.
\<close>

theorem content_type_rejected_before_staging:
  "(declared_type e r ''video'' \<noteq> Some ''video/mp4'' \<longrightarrow>
      (case handlerUploadVideo e cfg r w of
         (resp, w') \<Rightarrow>
            (status resp = 400 \<or> status resp = 401
               \<or> (status resp = 500 \<and> \<not> list_ex is_GetVideo_ok (new_events w w')))
            \<and> unchanged w w' \<and> \<not> list_ex is_staging (new_events w w')))
   \<and> (declared_type e r ''thumbnail'' \<noteq> Some ''image/jpeg''
        \<and> declared_type e r ''thumbnail'' \<noteq> Some ''image/png'' \<longrightarrow>
      (case handlerUploadThumbnail_disk e cfg r w of
         (resp, w') \<Rightarrow> (status resp = 400 \<or> status resp = 401)
            \<and> unchanged w w' \<and> \<not> list_ex is_staging (new_events w w')))"
proof (intro conjI impI)
  assume "declared_type e r ''video'' \<noteq> Some ''video/mp4''"
  then show "case handlerUploadVideo e cfg r w of
         (resp, w') \<Rightarrow>
            (status resp = 400 \<or> status resp = 401
               \<or> (status resp = 500 \<and> \<not> list_ex is_GetVideo_ok (new_events w w')))
            \<and> unchanged w w' \<and> \<not> list_ex is_staging (new_events w w')"
    by (rule video_bad_type)
next
  assume "declared_type e r ''thumbnail'' \<noteq> Some ''image/jpeg''
        \<and> declared_type e r ''thumbnail'' \<noteq> Some ''image/png''"
  then have "declared_type e r ''thumbnail'' \<noteq> Some ''image/jpeg''"
    and "declared_type e r ''thumbnail'' \<noteq> Some ''image/png''" by simp_all
  then show "case handlerUploadThumbnail_disk e cfg r w of
         (resp, w') \<Rightarrow> (status resp = 400 \<or> status resp = 401)
            \<and> unchanged w w' \<and> \<not> list_ex is_staging (new_events w w')"
    by (rule disk_bad_type)
qed

text \<open>
  An upload declaring \<open>text/html\<close> for both parts is answered 400 by both handlers, which
  change nothing.
\<close>

theorem content_type_rejected_before_staging_witness:
  "declared_type demo_env html_request ''video'' = Some ''text/html''
   \<and> declared_type demo_env html_request ''thumbnail'' = Some ''text/html''
   \<and> status (fst (handlerUploadVideo demo_env demo_cfg html_request demo_world)) = 400
   \<and> unchanged demo_world (snd (handlerUploadVideo demo_env demo_cfg html_request demo_world))
   \<and> status (fst (handlerUploadThumbnail_disk demo_env demo_cfg html_request demo_world)) = 400
   \<and> unchanged demo_world (snd (handlerUploadThumbnail_disk demo_env demo_cfg html_request demo_world))"
proof -
  have v: "declared_type demo_env html_request ''video'' = Some ''text/html''"
    and t: "declared_type demo_env html_request ''thumbnail'' = Some ''text/html''"
    by (simp_all add: eval5_defs)
  have sv: "status (fst (handlerUploadVideo demo_env demo_cfg html_request demo_world)) = 400"
    and st: "status (fst (handlerUploadThumbnail_disk demo_env demo_cfg html_request demo_world)) = 400"
    by (simp_all add: eval5_defs)
  from content_type_rejected_before_staging[where e=demo_env and r=html_request and cfg=demo_cfg
         and w=demo_world] v t
  have "unchanged demo_world (snd (handlerUploadVideo demo_env demo_cfg html_request demo_world))"
    and "unchanged demo_world (snd (handlerUploadThumbnail_disk demo_env demo_cfg html_request demo_world))"
    by (simp_all add: case_prod_beta)
  with v t sv st show ?thesis by (intro conjI)
qed

text \<open>
  Claim C2 as stated fails on the in-memory thumbnail handler, which has no allow-list: the
  owner's upload declaring \<open>text/html\<close> succeeds and is stored under that type.
\<close>

theorem thumbnail_map_stores_any_type:
  "declared_type demo_env html_request ''thumbnail'' = Some ''text/html''
   \<and> status (fst (handlerUploadThumbnail_map demo_env demo_cfg html_request demo_world)) = 200
   \<and> videoThumbnails (snd (handlerUploadThumbnail_map demo_env demo_cfg html_request demo_world)) demo_id
       = Some \<lparr>thumb_data = ''<script>'', thumb_mediaType = ''text/html''\<rparr>"
  by (simp add: eval5_defs)

text \<open>
  Claim C4, as amended. For an authenticated request whose validated user is not the owner
  of the record, no handler calls \<open>UpdateVideo\<close> and the database is unchanged. The video
  handler answers 401. A thumbnail handler answers 401 once it has reached the lookup, and
  400 or 500 when an earlier step (form parsing, content type, writing the file, reading
  the part) has failed first.
\<close>

theorem nonowner_not_served:
  assumes "uuid_Parse e (PathValue_videoID r) = Some videoID"
      and "GetBearerToken e (Header r) = Some token"
      and "ValidateJWT e token (jwtSecret cfg) = Some userID"
      and "db w videoID = Some v" and "UserID v \<noteq> userID"
  shows "(case handlerUploadVideo e cfg r w of
            (resp, w') \<Rightarrow> status resp = 401 \<and> db w' = db w
               \<and> \<not> list_ex is_UpdateVideo (new_events w w'))
       \<and> (case handlerUploadThumbnail_disk e cfg r w of
            (resp, w') \<Rightarrow> (status resp = 400 \<or> status resp = 401 \<or> status resp = 500)
               \<and> (list_ex is_GetVideo_ok (new_events w w') \<longrightarrow> status resp = 401)
               \<and> db w' = db w \<and> \<not> list_ex is_UpdateVideo (new_events w w'))
       \<and> (case handlerUploadThumbnail_map e cfg r w of
            (resp, w') \<Rightarrow> (status resp = 400 \<or> status resp = 401 \<or> status resp = 500)
               \<and> (list_ex is_GetVideo_ok (new_events w w') \<longrightarrow> status resp = 401)
               \<and> db w' = db w \<and> \<not> list_ex is_UpdateVideo (new_events w w'))"
  using video_nonowner[OF assms] disk_nonowner[OF assms] map_nonowner[OF assms]
  by (simp add: case_prod_beta unchanged_def)

text \<open>
  The hypotheses of C4 hold for the second user's request on the first user's video: all
  three handlers answer 401 and leave the database as it was.
\<close>

theorem nonowner_not_served_witness:
  "uuid_Parse demo_env (PathValue_videoID (demo_request ''bob-token'')) = Some demo_id
   \<and> GetBearerToken demo_env (Header (demo_request ''bob-token'')) = Some ''bob-token''
   \<and> ValidateJWT demo_env ''bob-token'' (jwtSecret demo_cfg) = Some bob
   \<and> db demo_world demo_id = Some demo_video
   \<and> UserID demo_video \<noteq> bob
   \<and> status (fst (handlerUploadVideo demo_env demo_cfg (demo_request ''bob-token'') demo_world)) = 401
   \<and> db (snd (handlerUploadVideo demo_env demo_cfg (demo_request ''bob-token'') demo_world)) = db demo_world
   \<and> status (fst (handlerUploadThumbnail_disk demo_env demo_cfg (demo_request ''bob-token'') demo_world)) = 401
   \<and> db (snd (handlerUploadThumbnail_disk demo_env demo_cfg (demo_request ''bob-token'') demo_world)) = db demo_world
   \<and> status (fst (handlerUploadThumbnail_map demo_env demo_cfg (demo_request ''bob-token'') demo_world)) = 401
   \<and> db (snd (handlerUploadThumbnail_map demo_env demo_cfg (demo_request ''bob-token'') demo_world)) = db demo_world"
proof -
  have h: "uuid_Parse demo_env (PathValue_videoID (demo_request ''bob-token'')) = Some demo_id"
       "GetBearerToken demo_env (Header (demo_request ''bob-token'')) = Some ''bob-token''"
       "ValidateJWT demo_env ''bob-token'' (jwtSecret demo_cfg) = Some bob"
       "db demo_world demo_id = Some demo_video"
       "UserID demo_video \<noteq> bob"
    using alice_not_bob by (simp_all add: eval5_defs)
  have s: "status (fst (handlerUploadThumbnail_disk demo_env demo_cfg (demo_request ''bob-token'') demo_world)) = 401"
       "status (fst (handlerUploadThumbnail_map demo_env demo_cfg (demo_request ''bob-token'') demo_world)) = 401"
    using alice_not_bob by (simp_all add: eval5_defs)
  from nonowner_not_served[OF h] s h show ?thesis
    by (simp add: case_prod_beta)
qed

text \<open>
  Claim C4 as stated fails on the thumbnail handlers: a request by a user who is not the
  owner, whose form has no \<open>thumbnail\<close> field, is answered 400 and not 401, because the
  form is parsed before the record is looked up.
\<close>

theorem nonowner_bad_form_counterexample:
  "uuid_Parse demo_env (PathValue_videoID fieldless_request) = Some demo_id
   \<and> GetBearerToken demo_env (Header fieldless_request) = Some ''bob-token''
   \<and> ValidateJWT demo_env ''bob-token'' (jwtSecret demo_cfg) = Some bob
   \<and> db demo_world demo_id = Some demo_video
   \<and> UserID demo_video \<noteq> bob
   \<and> status (fst (handlerUploadThumbnail_map demo_env demo_cfg fieldless_request demo_world)) = 400
   \<and> status (fst (handlerUploadThumbnail_disk demo_env demo_cfg fieldless_request demo_world)) = 400"
  using alice_not_bob by (simp add: eval5_defs)

subsection \<open>Order of lookup, extraction and placement; body size\<close>

text \<open>
  Claim C7, as amended. In the video handler every form extraction, staging and placement
  call comes after a successful record lookup, and a request by a user who is not the owner
  stops right after the lookup, leaving files, database, object store and thumbnail map as
  they were. The in-memory thumbnail handler extracts the form field before the lookup, but
  stores the payload only after a successful lookup, and a request by a user who is not the
  owner stores nothing.
\<close>

theorem lookup_before_extraction:
  "(case handlerUploadVideo e cfg r w of
      (resp, w') \<Rightarrow> preceded_by is_GetVideo_ok is_extraction_or_staging (new_events w w'))
   \<and> (case handlerUploadThumbnail_map e cfg r w of
      (resp, w') \<Rightarrow> preceded_by is_GetVideo_ok is_MapStore (new_events w w'))
   \<and> (uuid_Parse e (PathValue_videoID r) = Some videoID
        \<and> GetBearerToken e (Header r) = Some token
        \<and> ValidateJWT e token (jwtSecret cfg) = Some userID
        \<and> db w videoID = Some v \<and> UserID v \<noteq> userID \<longrightarrow>
          (case handlerUploadVideo e cfg r w of
             (resp, w') \<Rightarrow> unchanged w w' \<and> new_events w w' = [E_GetVideo videoID True])
        \<and> (case handlerUploadThumbnail_map e cfg r w of
             (resp, w') \<Rightarrow> unchanged w w' \<and> \<not> list_ex is_MapStore (new_events w w')))"
proof (intro conjI impI)
  show "case handlerUploadVideo e cfg r w of
      (resp, w') \<Rightarrow> preceded_by is_GetVideo_ok is_extraction_or_staging (new_events w w')"
    by (rule video_lookup_first)
  show "case handlerUploadThumbnail_map e cfg r w of
      (resp, w') \<Rightarrow> preceded_by is_GetVideo_ok is_MapStore (new_events w w')"
    by (rule map_lookup_before_store)
next
  assume a: "uuid_Parse e (PathValue_videoID r) = Some videoID
        \<and> GetBearerToken e (Header r) = Some token
        \<and> ValidateJWT e token (jwtSecret cfg) = Some userID
        \<and> db w videoID = Some v \<and> UserID v \<noteq> userID"
  then have h: "uuid_Parse e (PathValue_videoID r) = Some videoID"
      "GetBearerToken e (Header r) = Some token"
      "ValidateJWT e token (jwtSecret cfg) = Some userID"
      "db w videoID = Some v" "UserID v \<noteq> userID"
    by simp_all
  show "case handlerUploadVideo e cfg r w of
             (resp, w') \<Rightarrow> unchanged w w' \<and> new_events w w' = [E_GetVideo videoID True]"
    using video_nonowner[OF h] by (simp add: case_prod_beta)
  show "case handlerUploadThumbnail_map e cfg r w of
             (resp, w') \<Rightarrow> unchanged w w' \<and> \<not> list_ex is_MapStore (new_events w w')"
    using map_nonowner[OF h] by (simp add: case_prod_beta)
qed

text \<open>
  C7 at the second user's request on the first user's video, and at the owner's upload, in
  which extraction and staging do happen, after the lookup.
\<close>

theorem lookup_before_extraction_witness:
  "uuid_Parse demo_env (PathValue_videoID (demo_request ''bob-token'')) = Some demo_id
   \<and> GetBearerToken demo_env (Header (demo_request ''bob-token'')) = Some ''bob-token''
   \<and> ValidateJWT demo_env ''bob-token'' (jwtSecret demo_cfg) = Some bob
   \<and> db demo_world demo_id = Some demo_video
   \<and> UserID demo_video \<noteq> bob
   \<and> unchanged demo_world (snd (handlerUploadVideo demo_env demo_cfg (demo_request ''bob-token'') demo_world))
   \<and> new_events demo_world (snd (handlerUploadVideo demo_env demo_cfg (demo_request ''bob-token'') demo_world))
        = [E_GetVideo demo_id True]
   \<and> unchanged demo_world (snd (handlerUploadThumbnail_map demo_env demo_cfg (demo_request ''bob-token'') demo_world))
   \<and> preceded_by is_GetVideo_ok is_extraction_or_staging
        (new_events demo_world (snd (handlerUploadVideo demo_env demo_cfg (demo_request ''alice-token'') demo_world)))
   \<and> list_ex is_extraction_or_staging
        (new_events demo_world (snd (handlerUploadVideo demo_env demo_cfg (demo_request ''alice-token'') demo_world)))"
proof -
  have h: "uuid_Parse demo_env (PathValue_videoID (demo_request ''bob-token'')) = Some demo_id
   \<and> GetBearerToken demo_env (Header (demo_request ''bob-token'')) = Some ''bob-token''
   \<and> ValidateJWT demo_env ''bob-token'' (jwtSecret demo_cfg) = Some bob
   \<and> db demo_world demo_id = Some demo_video
   \<and> UserID demo_video \<noteq> bob"
    using alice_not_bob by (simp add: eval5_defs)
  have x: "list_ex is_extraction_or_staging
        (new_events demo_world (snd (handlerUploadVideo demo_env demo_cfg (demo_request ''alice-token'') demo_world)))"
    by (simp add: eval5_defs classify_hd)
  from lookup_before_extraction[where e=demo_env and cfg=demo_cfg and r="demo_request ''bob-token''"
         and w=demo_world and videoID=demo_id and token="''bob-token''" and userID=bob and v=demo_video]
       lookup_before_extraction[where e=demo_env and cfg=demo_cfg and r="demo_request ''alice-token''"
         and w=demo_world]
       h x
  show ?thesis by (simp add: case_prod_beta)
qed

text \<open>
  Claim C7 as stated fails on the assets-directory thumbnail handler: the request of a user
  who is not the owner is answered 401, but the payload has already been written over the
  video's thumbnail file, before the lookup.
\<close>

theorem thumbnail_disk_written_before_check:
  "ValidateJWT demo_env ''bob-token'' (jwtSecret demo_cfg) = Some bob
   \<and> db demo_world demo_id = Some demo_video
   \<and> UserID demo_video \<noteq> bob
   \<and> status (fst (handlerUploadThumbnail_disk demo_env demo_cfg (demo_request ''bob-token'') demo_world)) = 401
   \<and> files demo_world thumbnail_path = None
   \<and> files (snd (handlerUploadThumbnail_disk demo_env demo_cfg (demo_request ''bob-token'') demo_world))
        thumbnail_path = Some ''png-bytes''
   \<and> new_events demo_world (snd (handlerUploadThumbnail_disk demo_env demo_cfg (demo_request ''bob-token'') demo_world))
        = [E_ParseMultipartForm True, E_FormFile ''thumbnail'' True, E_Create thumbnail_path True,
           E_Copy thumbnail_path True, E_GetVideo demo_id True]"
  using alice_not_bob by (simp add: eval5_defs thumbnail_path_def uuid_String_demo_id)

text \<open>
  Claim C8, as amended. A video upload whose multipart form, up to its closing boundary,
  is longer than \<open>uploadLimit\<close> places no artifact and changes nothing. It is answered 400
  as soon as it reaches the form extraction, which fails; an earlier failing step answers
  first (400, 401, or 500 when the record lookup fails).
\<close>

theorem overlong_form_rejected:
  "uploadLimit < form_length r \<longrightarrow>
     (case handlerUploadVideo e cfg r w of
        (resp, w') \<Rightarrow>
           (status resp = 400 \<or> status resp = 401
              \<or> (status resp = 500 \<and> \<not> list_ex is_GetVideo_ok (new_events w w')))
           \<and> (list_ex is_extraction_or_staging (new_events w w')
                 \<longrightarrow> status resp = 400 \<and> last (new_events w w') = E_FormFile ''video'' False)
           \<and> unchanged w w' \<and> \<not> list_ex is_staging (new_events w w'))"
  using video_oversize[where r=r and e=e and cfg=cfg and w=w] by (intro impI)

text \<open>
  The owner's video upload whose form is \<open>2 ^ 31\<close> bytes long is answered 400 and
  changes nothing.
\<close>

theorem overlong_form_rejected_witness:
  "uploadLimit < form_length overlong_form_request
   \<and> fst (handlerUploadVideo demo_env demo_cfg overlong_form_request demo_world)
       = respondWithError 400 ''Unable to parse form file''
   \<and> unchanged demo_world (snd (handlerUploadVideo demo_env demo_cfg overlong_form_request demo_world))"
proof -
  have h: "uploadLimit < form_length overlong_form_request"
    by (simp add: eval5_defs)
  have s: "fst (handlerUploadVideo demo_env demo_cfg overlong_form_request demo_world)
             = respondWithError 400 ''Unable to parse form file''"
    by (simp add: eval5_defs)
  from overlong_form_rejected[where r=overlong_form_request and e=demo_env and cfg=demo_cfg
         and w=demo_world] h
  have "unchanged demo_world (snd (handlerUploadVideo demo_env demo_cfg overlong_form_request demo_world))"
    by (simp add: case_prod_beta)
  with h s show ?thesis by (intro conjI)
qed

text \<open>
  Claim C8 as stated fails on the code. The limit of the video handler is on what is read,
  and the form parser stops at the closing boundary: a body of \<open>2 ^ 31\<close> bytes whose form
  ends within the limit is answered 200 and the object is put. The thumbnail handlers set
  no limit at all (\<open>maxMemory\<close> is only what form parsing keeps in memory): the same body
  is accepted and placed.
\<close>

theorem oversize_body_accepted:
  "uploadLimit < body_size oversize_request
   \<and> maxMemory < body_size oversize_request
   \<and> status (fst (handlerUploadVideo demo_env demo_cfg oversize_request demo_world)) = 200
   \<and> s3 (snd (handlerUploadVideo demo_env demo_cfg oversize_request demo_world))
        (''tubely'', ''landscape/123e4567e89b12d3a456426614174000.mov'')
       = Some (''mp4-bytes'', ''video/mp4'')
   \<and> status (fst (handlerUploadThumbnail_disk demo_env demo_cfg oversize_request demo_world)) = 200
   \<and> files (snd (handlerUploadThumbnail_disk demo_env demo_cfg oversize_request demo_world))
        thumbnail_path = Some ''png-bytes''
   \<and> status (fst (handlerUploadThumbnail_map demo_env demo_cfg oversize_request demo_world)) = 200"
  by (simp add: eval5_defs thumbnail_path_def uuid_String_demo_id classify_hd object_key_eq
        filepath_Ext_def)

text \<open>
  Claim C9. In every handler a call of \<open>UpdateVideo\<close> comes after the successful placement
  of the artifact (the put into the object store, the completed copy into the assets
  directory, the store into the map), and when no placement has succeeded the database is
  unchanged.
\<close>

theorem update_only_after_placement:
  "(case handlerUploadVideo e cfg r w of
      (resp, w') \<Rightarrow> preceded_by is_PutObject_ok is_UpdateVideo (new_events w w')
         \<and> (\<not> list_ex is_PutObject_ok (new_events w w') \<longrightarrow> db w' = db w))
   \<and> (case handlerUploadThumbnail_disk e cfg r w of
      (resp, w') \<Rightarrow> preceded_by is_Copy_ok is_UpdateVideo (new_events w w')
         \<and> (\<not> list_ex is_Copy_ok (new_events w w') \<longrightarrow> db w' = db w))
   \<and> (case handlerUploadThumbnail_map e cfg r w of
      (resp, w') \<Rightarrow> preceded_by is_MapStore is_UpdateVideo (new_events w w')
         \<and> (\<not> list_ex is_MapStore (new_events w w') \<longrightarrow> db w' = db w))"
  using video_update_after_put disk_update_after_copy map_update_after_store
  by (intro conjI)

text \<open>
  C9 when the put fails (status 500, database unchanged) and at the owner's successful
  upload (the update follows the put).
\<close>

theorem update_only_after_placement_witness:
  "\<not> list_ex is_PutObject_ok
        (new_events demo_world (snd (handlerUploadVideo put_fail_env demo_cfg (demo_request ''alice-token'') demo_world)))
   \<and> db (snd (handlerUploadVideo put_fail_env demo_cfg (demo_request ''alice-token'') demo_world)) = db demo_world
   \<and> fst (handlerUploadVideo put_fail_env demo_cfg (demo_request ''alice-token'') demo_world)
       = respondWithError 500 ''Error uploading file to S3''
   \<and> list_ex is_UpdateVideo
        (new_events demo_world (snd (handlerUploadVideo demo_env demo_cfg (demo_request ''alice-token'') demo_world)))
   \<and> preceded_by is_PutObject_ok is_UpdateVideo
        (new_events demo_world (snd (handlerUploadVideo demo_env demo_cfg (demo_request ''alice-token'') demo_world)))"
proof -
  have n: "\<not> list_ex is_PutObject_ok
        (new_events demo_world (snd (handlerUploadVideo put_fail_env demo_cfg (demo_request ''alice-token'') demo_world)))"
    and r: "fst (handlerUploadVideo put_fail_env demo_cfg (demo_request ''alice-token'') demo_world)
       = respondWithError 500 ''Error uploading file to S3''"
    and u: "list_ex is_UpdateVideo
        (new_events demo_world (snd (handlerUploadVideo demo_env demo_cfg (demo_request ''alice-token'') demo_world)))"
    by (simp_all add: eval5_defs put_fail_env_def classify_hd)
  from update_only_after_placement[where e=put_fail_env and cfg=demo_cfg
         and r="demo_request ''alice-token''" and w=demo_world] n
  have d: "db (snd (handlerUploadVideo put_fail_env demo_cfg (demo_request ''alice-token'') demo_world)) = db demo_world"
    by (simp add: case_prod_beta)
  from update_only_after_placement[where e=demo_env and cfg=demo_cfg
         and r="demo_request ''alice-token''" and w=demo_world]
  have p: "preceded_by is_PutObject_ok is_UpdateVideo
        (new_events demo_world (snd (handlerUploadVideo demo_env demo_cfg (demo_request ''alice-token'') demo_world)))"
    by (simp add: case_prod_beta)
  from n d r u p show ?thesis by (intro conjI)
qed

text \<open>
  The staged upload file is removed on every path.
\<close>

lemma staged_file_removed:
  "case handlerUploadVideo e cfg r w of
     (resp, w') \<Rightarrow> \<forall>tmp. list_ex (\<lambda>ev. ev = E_CreateTemp (Some tmp)) (new_events w w')
                          \<longrightarrow> files w' tmp = None"
proof -
  obtain evs where t: "new_events w (snd (handlerUploadVideo e cfg r w)) = evs"
    and p: "video_paths e cfg r w (fst (handlerUploadVideo e cfg r w)) (snd (handlerUploadVideo e cfg r w)) evs"
    by (rule video_paths_run)
  show ?thesis
    using p unfolding t[symmetric]
    by (auto simp add: video_paths_def staged_paths_def processed_paths_def Let_def case_prod_beta
          split: option.splits if_splits)
qed

text \<open>
  Both temporary files are removed when the upload succeeds.
\<close>

lemma temporary_files_removed_on_success:
  assumes ok: "status (fst (handlerUploadVideo e cfg r w)) = 200"
  shows "\<exists>tmp. list_ex (\<lambda>ev. ev = E_CreateTemp (Some tmp)) (new_events w (snd (handlerUploadVideo e cfg r w)))
           \<and> files (snd (handlerUploadVideo e cfg r w)) tmp = None
           \<and> files (snd (handlerUploadVideo e cfg r w)) (tmp @ ''.processing'') = None"
proof (rule video_success[OF ok])
  fix videoID v' key tmp
  assume "files (snd (handlerUploadVideo e cfg r w)) tmp = None"
     and "files (snd (handlerUploadVideo e cfg r w)) (tmp @ ''.processing'') = None"
     and "new_events w (snd (handlerUploadVideo e cfg r w)) =
           [E_GetVideo videoID True, E_FormFile ''video'' True, E_CreateTemp (Some tmp),
            E_Copy tmp True, E_ffprobe tmp, E_ffmpeg tmp (tmp @ ''.processing''),
            E_Stat (tmp @ ''.processing''), E_Open (tmp @ ''.processing'') True,
            E_PutObject (s3Bucket cfg) key True, E_UpdateVideo v' True,
            E_Remove (tmp @ ''.processing''), E_Remove tmp]"
  then show ?thesis by auto
qed

end
